theory Spec2Isabelle
  imports Complex_Main "HOL-Library.Multiset"
begin

section \<open>Numbers\<close>

text \<open>
  The script computes with Python floats (IEEE doubles, also inside pandas and numpy).
  A float is modelled as a real number or one of the three special values; rounding,
  overflow and the sign of zero are not modelled. What is modelled is how the special
  values arise and propagate: \<open>0/0\<close> is NaN, \<open>x/0\<close> is an infinity, every
  operation on NaN is NaN and every comparison with NaN is false.
\<close>

datatype fnum = NaN | PInf | MInf | Fin real

fun fl_neg :: "fnum \<Rightarrow> fnum" where
  "fl_neg NaN = NaN"
| "fl_neg PInf = MInf"
| "fl_neg MInf = PInf"
| "fl_neg (Fin x) = Fin (- x)"

fun fl_add :: "fnum \<Rightarrow> fnum \<Rightarrow> fnum" where
  "fl_add NaN _ = NaN"
| "fl_add _ NaN = NaN"
| "fl_add PInf MInf = NaN"
| "fl_add MInf PInf = NaN"
| "fl_add PInf _ = PInf"
| "fl_add _ PInf = PInf"
| "fl_add MInf _ = MInf"
| "fl_add _ MInf = MInf"
| "fl_add (Fin x) (Fin y) = Fin (x + y)"

definition fl_sub :: "fnum \<Rightarrow> fnum \<Rightarrow> fnum" where
  "fl_sub a b = fl_add a (fl_neg b)"

text \<open>The sign of a non-NaN value: \<open>-1\<close>, \<open>0\<close> or \<open>1\<close>.\<close>

fun fl_sgn :: "fnum \<Rightarrow> int" where
  "fl_sgn NaN = 0"
| "fl_sgn PInf = 1"
| "fl_sgn MInf = - 1"
| "fl_sgn (Fin x) = (if x < 0 then - 1 else if x = 0 then 0 else 1)"

definition inf_of_sign :: "int \<Rightarrow> fnum" where
  "inf_of_sign s = (if s = 0 then NaN else if 0 < s then PInf else MInf)"

fun fl_mul :: "fnum \<Rightarrow> fnum \<Rightarrow> fnum" where
  "fl_mul NaN _ = NaN"
| "fl_mul _ NaN = NaN"
| "fl_mul (Fin x) (Fin y) = Fin (x * y)"
| "fl_mul a b = inf_of_sign (fl_sgn a * fl_sgn b)"

fun fl_div :: "fnum \<Rightarrow> fnum \<Rightarrow> fnum" where
  "fl_div NaN _ = NaN"
| "fl_div _ NaN = NaN"
| "fl_div (Fin x) (Fin y) = (if y = 0 then inf_of_sign (fl_sgn (Fin x)) else Fin (x / y))"
| "fl_div (Fin x) _ = Fin 0"
| "fl_div a (Fin y) = inf_of_sign (fl_sgn a * (if y < 0 then - 1 else 1))"
| "fl_div _ _ = NaN"

fun fl_less :: "fnum \<Rightarrow> fnum \<Rightarrow> bool" where
  "fl_less NaN _ = False"
| "fl_less _ NaN = False"
| "fl_less (Fin x) (Fin y) = (x < y)"
| "fl_less MInf b = (b \<noteq> MInf)"
| "fl_less a PInf = (a \<noteq> PInf)"
| "fl_less _ _ = False"

fun fl_le :: "fnum \<Rightarrow> fnum \<Rightarrow> bool" where
  "fl_le NaN _ = False"
| "fl_le _ NaN = False"
| "fl_le a b = (a = b \<or> fl_less a b)"

text \<open>\<open>pd.notna\<close> on a float.\<close>

definition notna :: "fnum \<Rightarrow> bool" where
  "notna x = (x \<noteq> NaN)"

text \<open>Python's \<open>sum\<close>: starts from the integer 0 and adds from left to right.\<close>

definition py_sum :: "fnum list \<Rightarrow> fnum" where
  "py_sum xs = foldl fl_add (Fin 0) xs"

section \<open>Dates\<close>

text \<open>
  A pandas \<open>Timestamp\<close> at midnight, as year, month and day; timestamps compare
  chronologically.
\<close>

datatype date = Date (d_year: int) (d_month: nat) (d_day: nat)

definition date_le :: "date \<Rightarrow> date \<Rightarrow> bool" where
  "date_le a b =
     (d_year a < d_year b \<or> (d_year a = d_year b \<and>
       (d_month a < d_month b \<or> (d_month a = d_month b \<and> d_day a \<le> d_day b))))"

definition is_leap :: "int \<Rightarrow> bool" where
  "is_leap y = (y mod 4 = 0 \<and> (y mod 100 \<noteq> 0 \<or> y mod 400 = 0))"

definition days_in_month :: "int \<Rightarrow> nat \<Rightarrow> nat" where
  "days_in_month y m =
     (if m = 2 then (if is_leap y then 29 else 28)
      else if m = 4 \<or> m = 6 \<or> m = 9 \<or> m = 11 then 30 else 31)"

text \<open>
  \<open>ts - pd.DateOffset(months=k)\<close>: the month moves back by \<open>k\<close>, the day is kept
  unless the target month is shorter, where it becomes that month's last day.
\<close>

definition sub_months :: "date \<Rightarrow> nat \<Rightarrow> date" where
  "sub_months d k =
     (let t = d_year d * 12 + (int (d_month d) - 1) - int k;
          y = t div 12;
          m = nat (t mod 12) + 1
      in Date y m (min (d_day d) (days_in_month y m)))"

text \<open>\<open>ts + pd.offsets.MonthEnd(0)\<close>: the last day of the month of \<open>ts\<close>.\<close>

definition month_end :: "date \<Rightarrow> date" where
  "month_end d = Date (d_year d) (d_month d) (days_in_month (d_year d) (d_month d))"

text \<open>
  \<open>pd.date_range(start="2021-03-31", end="2024-12-31", freq="QS-JAN")\<close>: the
  first days of the calendar quarters inside the configured range.
\<close>

definition quarters :: "date list" where
  "quarters =
     [Date 2021 4 1, Date 2021 7 1, Date 2021 10 1,
      Date 2022 1 1, Date 2022 4 1, Date 2022 7 1, Date 2022 10 1,
      Date 2023 1 1, Date 2023 4 1, Date 2023 7 1, Date 2023 10 1,
      Date 2024 1 1, Date 2024 4 1, Date 2024 7 1, Date 2024 10 1]"

text \<open>The key \<open>f"{trade_date.year}Q{trade_date.quarter}"\<close>, as the pair it prints.\<close>

type_synonym qkey = "int \<times> nat"

definition quarter_str :: "date \<Rightarrow> qkey" where
  "quarter_str d = (d_year d, (d_month d - 1) div 3 + 1)"

section \<open>Configuration\<close>

definition INITIAL_CAPITAL :: real where
  "INITIAL_CAPITAL = 1000000"

definition TOP_N_STOCKS :: nat where
  "TOP_N_STOCKS = 5"

datatype py_error = IndexError | ValueError | OutOfBoundsDatetime

section \<open>Column semantics resolver and lookback window\<close>

text \<open>
  A Python \<open>str\<close> is a sequence of Unicode code points; a column label is modelled as
  the list of its code points (so that the report tags, which are not ASCII, are
  plain data).
\<close>

type_synonym ustr = "nat list"

text \<open>
  In a pattern over \<open>str\<close>, \<open>\d\<close> matches every decimal digit of Unicode
  (category Nd), not only the ASCII digits. The decimal digits come in runs of ten
  consecutive code points, the digits 0 to 9 of one script. The list holds the code
  point of the zero of every run in Unicode 14.0, the database of Python 3.11: ASCII
  at 48, Arabic-Indic at 1632, and so on to the full-width digits at 65296 and the
  runs beyond the basic plane. The value of a digit is its distance from the zero of
  its run; it is the value that \<open>int\<close> and the date parser read.
\<close>

definition decimal_digit_zeros :: "nat list" where
  "decimal_digit_zeros =
     [48, 1632, 1776, 1984, 2406, 2534, 2662, 2790, 2918, 3046, 3174, 3302, 3430, 3558,
      3664, 3792, 3872, 4160, 4240, 6112, 6160, 6470, 6608, 6784, 6800, 6992, 7088, 7232,
      7248, 42528, 43216, 43264, 43472, 43504, 43600, 44016, 65296, 66720, 68912, 69734,
      69872, 69942, 70096, 70384, 70736, 70864, 71248, 71360, 71472, 71904, 72016, 72784,
      73040, 73120, 92768, 92864, 93008, 120782, 120792, 120802, 120812, 120822, 123200,
      123632, 125264, 130032]"

definition digit_value :: "nat \<Rightarrow> nat option" where
  "digit_value c =
     map_option (\<lambda>z. c - z) (find (\<lambda>z. z \<le> c \<and> c < z + 10) decimal_digit_zeros)"

definition is_digit :: "nat \<Rightarrow> bool" where
  "is_digit c = (digit_value c \<noteq> None)"

text \<open>The four report tags of the pattern and of \<open>report_map\<close>, in the pattern's order.\<close>

datatype report_type = YiJi | ZhongBao | SanJi | NianBao

fun tag_text :: "report_type \<Rightarrow> ustr" where
  "tag_text YiJi = [19968, 23395]"
| "tag_text ZhongBao = [20013, 25253]"
| "tag_text SanJi = [19977, 23395]"
| "tag_text NianBao = [24180, 25253]"

fun report_map :: "report_type \<Rightarrow> nat" where
  "report_map YiJi = 3"
| "report_map ZhongBao = 6"
| "report_map SanJi = 9"
| "report_map NianBao = 12"

text \<open>\<open>col.replace('\n', ' ')\<close>\<close>

definition replace_newlines :: "ustr \<Rightarrow> ustr" where
  "replace_newlines col = map (\<lambda>c. if c = 10 then 32 else c) col"

text \<open>The alternation of the four tags, tried in order at the head of the text.\<close>

definition alt_at :: "ustr \<Rightarrow> report_type option" where
  "alt_at s =
     (if take 2 s = tag_text YiJi then Some YiJi
      else if take 2 s = tag_text ZhongBao then Some ZhongBao
      else if take 2 s = tag_text SanJi then Some SanJi
      else if take 2 s = tag_text NianBao then Some NianBao
      else None)"

text \<open>
  \<open>.*?\<close> followed by the alternation: the lazy star tries the alternation first and
  only then consumes one more character; \<open>.\<close> matches everything but a line feed.
\<close>

fun lazy_then_tag :: "ustr \<Rightarrow> report_type option" where
  "lazy_then_tag [] = None"
| "lazy_then_tag (c # cs) =
     (case alt_at (c # cs) of
        Some t \<Rightarrow> Some t
      | None \<Rightarrow> (if c = 10 then None else lazy_then_tag cs))"

text \<open>
  \<open>re.search(r'(\d{4}).*?(tags)', s)\<close>: the leftmost start at which the pattern
  matches; the groups are the four digits and the tag.
\<close>

fun re_search :: "ustr \<Rightarrow> (ustr \<times> report_type) option" where
  "re_search [] = None"
| "re_search (c # cs) =
     (if 4 \<le> length (c # cs) \<and> list_all is_digit (take 4 (c # cs)) then
        (case lazy_then_tag (drop 4 (c # cs)) of
           Some t \<Rightarrow> Some (take 4 (c # cs), t)
         | None \<Rightarrow> re_search cs)
      else re_search cs)"

text \<open>The number that the four captured digits write.\<close>

definition year_value :: "ustr \<Rightarrow> int" where
  "year_value ds =
     foldl (\<lambda>a c. 10 * a + int (case digit_value c of Some d \<Rightarrow> d | None \<Rightarrow> 0)) 0 ds"

text \<open>
  \<open>pd.to_datetime(f'{year}-{month}-01')\<close>: a nanosecond timestamp holds the days
  from 1677-09-22 to 2262-04-11; a date outside raises.
\<close>

definition to_datetime :: "int \<Rightarrow> nat \<Rightarrow> py_error + date" where
  "to_datetime y m =
     (let d = Date y m 1
      in if date_le (Date 1677 9 22) d \<and> date_le d (Date 2262 4 11) then Inr d
         else Inl OutOfBoundsDatetime)"

text \<open>
  Lines 121 to 127 for one column: \<open>None\<close> when the label carries no (year, tag)
  pair, otherwise the report date or the exception of \<open>to_datetime\<close>.
\<close>

definition report_date_of :: "ustr \<Rightarrow> (py_error + date) option" where
  "report_date_of col =
     (let clean_col = replace_newlines col in
      case re_search clean_col of
        None \<Rightarrow> None
      | Some (year, report_type) \<Rightarrow>
          (let month = report_map report_type in
           if year \<noteq> [] \<and> month \<noteq> 0 then
             (case to_datetime (year_value year) month of
                Inl e \<Rightarrow> Some (Inl e)
              | Inr d \<Rightarrow> Some (Inr (month_end d)))
           else None))"

text \<open>The loop of lines 120 to 129 over the columns, appending to \<open>window_cols\<close>.\<close>

fun window_loop :: "date \<Rightarrow> date \<Rightarrow> ustr list \<Rightarrow> ustr list \<Rightarrow> py_error + ustr list" where
  "window_loop t5 t2 [] window_cols = Inr window_cols"
| "window_loop t5 t2 (col # cols) window_cols =
     (case report_date_of col of
        None \<Rightarrow> window_loop t5 t2 cols window_cols
      | Some (Inl e) \<Rightarrow> Inl e
      | Some (Inr report_date) \<Rightarrow>
          (if date_le t5 report_date \<and> date_le report_date t2
           then window_loop t5 t2 cols (window_cols @ [col])
           else window_loop t5 t2 cols window_cols))"

text \<open>Lines 115 to 129: the window of a trade date over \<open>fundamental_df.columns[1:]\<close>.\<close>

definition window_cols_of :: "date \<Rightarrow> ustr list \<Rightarrow> py_error + ustr list" where
  "window_cols_of trade_date columns =
     (let t2 = sub_months trade_date 6;
          t5 = sub_months t2 9
      in window_loop t5 t2 (drop 1 columns) [])"

section \<open>Factor extractor\<close>

type_synonym matrix = "real list list"

text \<open>
  The frame passed to the extractor: the security names (column of names), the
  indicator labels (the other columns) and one row of values per security.
\<close>

record frame =
  f_names :: "string list"
  f_columns :: "ustr list"
  f_rows :: "fnum list list"

text \<open>
  The calls into scikit-learn and numpy, whose code is not part of the repository, are
  parameters of the model:
  \<^item> \<open>scaler_fit_transform\<close> is \<open>np.nan_to_num(StandardScaler().fit_transform(features))\<close>,
    which raises on a frame it rejects (one without rows) and otherwise returns
    finite numbers;
  \<^item> \<open>fa_fit_transform n X\<close> is
    \<open>FactorAnalysis(n_components=n, rotation='varimax', random_state=0).fit_transform(X)\<close>
    and returns the factor scores together with \<open>components_\<close>, or \<open>None\<close> when it raises;
  \<^item> \<open>np_argsort\<close> is \<open>ndarray.argsort(kind='quicksort')\<close>, the default kind
    of \<open>sort_values\<close>.
\<close>

record library =
  scaler_fit_transform :: "fnum list list \<Rightarrow> py_error + matrix"
  fa_fit_transform :: "nat \<Rightarrow> matrix \<Rightarrow> (matrix \<times> matrix) option"
  np_argsort :: "fnum list \<Rightarrow> nat list"

text \<open>\<open>np.sum(fa.components_**2, axis=1)\<close>\<close>

definition eig_vals_of :: "matrix \<Rightarrow> real list" where
  "eig_vals_of components = map (\<lambda>row. sum_list (map (\<lambda>x. x ^ 2) row)) components"

text \<open>\<open>eig_vals / np.sum(eig_vals)\<close>\<close>

definition share_of_total :: "real list \<Rightarrow> fnum list" where
  "share_of_total eig_vals = map (\<lambda>e. fl_div (Fin e) (Fin (sum_list eig_vals))) eig_vals"

text \<open>\<open>np.cumsum\<close>\<close>

fun cumsum_from :: "fnum \<Rightarrow> fnum list \<Rightarrow> fnum list" where
  "cumsum_from acc [] = []"
| "cumsum_from acc (x # xs) = fl_add acc x # cumsum_from (fl_add acc x) xs"

definition np_cumsum :: "fnum list \<Rightarrow> fnum list" where
  "np_cumsum xs = cumsum_from (Fin 0) xs"

text \<open>
  \<open>np.searchsorted(a, v)\<close> with the default \<open>side='left'\<close>: numpy's binary search,
  under numpy's order of floats, which puts NaN after every number.
\<close>

definition np_less :: "fnum \<Rightarrow> fnum \<Rightarrow> bool" where
  "np_less a b = (fl_less a b \<or> (b = NaN \<and> a \<noteq> NaN))"

function binsearch_left :: "fnum list \<Rightarrow> fnum \<Rightarrow> nat \<Rightarrow> nat \<Rightarrow> nat" where
  "binsearch_left arr key min_idx max_idx =
     (if min_idx < max_idx then
        (let mid = min_idx + (max_idx - min_idx) div 2
         in if np_less (arr ! mid) key
            then binsearch_left arr key (mid + 1) max_idx
            else binsearch_left arr key min_idx mid)
      else min_idx)"
  by pat_completeness auto
termination
  by (relation "measure (\<lambda>(arr, key, min_idx, max_idx). max_idx - min_idx)") auto

declare binsearch_left.simps [simp del]

definition searchsorted :: "fnum list \<Rightarrow> fnum \<Rightarrow> nat" where
  "searchsorted arr key = binsearch_left arr key 0 (length arr)"

text \<open>Lines 44 to 47: the factor count of the final fit, from the first fit's loadings.\<close>

definition cum_shares :: "matrix \<Rightarrow> fnum list" where
  "cum_shares components = np_cumsum (share_of_total (eig_vals_of components))"

definition choose_n_factors :: "matrix \<Rightarrow> real \<Rightarrow> nat" where
  "choose_n_factors components min_cum_var =
     searchsorted (cum_shares components) (Fin min_cum_var) + 1"

text \<open>
  \<open>np.dot(factor_scores, weights)\<close>: one inner product per security; raises when
  a row and the weights differ in length.
\<close>

definition inner :: "real list \<Rightarrow> fnum list \<Rightarrow> fnum" where
  "inner row weights = foldl fl_add (Fin 0) (map2 (\<lambda>f w. fl_mul (Fin f) w) row weights)"

definition np_dot :: "matrix \<Rightarrow> fnum list \<Rightarrow> py_error + fnum list" where
  "np_dot factor_scores weights =
     (if list_all (\<lambda>row. length row = length weights) factor_scores
      then Inr (map (\<lambda>row. inner row weights) factor_scores)
      else Inl ValueError)"

text \<open>
  \<open>sort_values(by=..., ascending=False)\<close> on one column is pandas' \<open>nargsort\<close>: the
  NaN positions are set aside and placed last; the other values and their positions
  are reversed, passed to \<open>argsort\<close>, and the resulting positions reversed again.
\<close>

definition nargsort_desc :: "(fnum list \<Rightarrow> nat list) \<Rightarrow> fnum list \<Rightarrow> nat list" where
  "nargsort_desc argsort items =
     (let idx = [0..<length items];
          non_nan_idx = rev (filter (\<lambda>i. items ! i \<noteq> NaN) idx);
          non_nans = map (\<lambda>i. items ! i) non_nan_idx;
          nan_idx = filter (\<lambda>i. items ! i = NaN) idx;
          indexer = rev (map (\<lambda>j. non_nan_idx ! j) (argsort non_nans))
      in indexer @ nan_idx)"

definition sort_values_desc ::
  "(fnum list \<Rightarrow> nat list) \<Rightarrow> (string \<times> fnum) list \<Rightarrow> (string \<times> fnum) list" where
  "sort_values_desc argsort rows =
     map (\<lambda>i. rows ! i) (nargsort_desc argsort (map snd rows))"

text \<open>
  The extractor. \<open>Inl\<close> is an exception that leaves the function, \<open>Inr None\<close> the
  pair \<open>(None, None)\<close> of the handler, \<open>Inr (Some (loadings, ranked))\<close> a result.
  Building \<open>loadings_df\<close> raises when the loadings are not one row per factor and
  one column per indicator; assigning the score column raises when the scores are not
  one per security.
\<close>

definition rolling_factor_analysis_and_ranking ::
  "library \<Rightarrow> frame \<Rightarrow> real \<Rightarrow> nat \<Rightarrow> py_error + (matrix \<times> (string \<times> fnum) list) option" where
  "rolling_factor_analysis_and_ranking lib window_data min_cum_var max_factor =
     (let stock_info = f_names window_data;
          n_variables = length (f_columns window_data);
          fit_factor = min max_factor n_variables
      in case scaler_fit_transform lib (f_rows window_data) of
           Inl e \<Rightarrow> Inl e
         | Inr features_scaled \<Rightarrow>
            (case fa_fit_transform lib fit_factor features_scaled of
               None \<Rightarrow> Inr None
             | Some (first_scores, first_components) \<Rightarrow>
                (let n_factors = choose_n_factors first_components min_cum_var
                 in case fa_fit_transform lib n_factors features_scaled of
                      None \<Rightarrow> Inr None
                    | Some (factor_scores, components) \<Rightarrow>
                       (let weights = share_of_total (eig_vals_of components)
                        in case np_dot factor_scores weights of
                             Inl e \<Rightarrow> Inl e
                           | Inr total_scores \<Rightarrow>
                              (if length components = n_factors
                                  \<and> list_all (\<lambda>row. length row = n_variables) components
                               then (if length total_scores = length stock_info
                                     then Inr (Some (transpose components,
                                            sort_values_desc (np_argsort lib)
                                              (zip stock_info total_scores)))
                                     else Inl ValueError)
                               else Inl ValueError)))))"

definition DEFAULT_MIN_CUM_VAR :: real where
  "DEFAULT_MIN_CUM_VAR = 4 / 5"

definition DEFAULT_MAX_FACTOR :: nat where
  "DEFAULT_MAX_FACTOR = 10"

section \<open>Quarterly rebalance simulator\<close>

text \<open>
  A row of the price table: the prices of one date, by security name
  (\<open>price_ts.loc[date]\<close>, a Series). \<open>Series.get(name, default)\<close> returns the
  cell of \<open>name\<close>, which may be NaN, or the default when the row has no such label.
\<close>

type_synonym snapshot = "(string \<times> fnum) list"

type_synonym price_table = "(date \<times> snapshot) list"

definition series_get :: "snapshot \<Rightarrow> string \<Rightarrow> fnum \<Rightarrow> fnum" where
  "series_get row name dflt = (case map_of row name of Some v \<Rightarrow> v | None \<Rightarrow> dflt)"

text \<open>
  A Python \<open>dict\<close> keeps its keys in insertion order; storing under a key that is
  present replaces the value in place.
\<close>

fun dict_set :: "('k \<times> 'v) list \<Rightarrow> 'k \<Rightarrow> 'v \<Rightarrow> ('k \<times> 'v) list" where
  "dict_set [] k v = [(k, v)]"
| "dict_set ((k', v') # kvs) k v =
     (if k' = k then (k, v) # kvs else (k', v') # dict_set kvs k v)"

text \<open>An entry of \<open>portfolio_history\<close>: \<open>start_asset\<close> and, once attached, \<open>end_asset\<close>.\<close>

record hist_entry =
  start_asset :: fnum
  end_asset :: "fnum option"

text \<open>The variables that the quarter loop reads and writes.\<close>

record sim_state =
  cash :: fnum
  current_portfolio :: "(string \<times> fnum) list"
  portfolio_history :: "(qkey \<times> hist_entry) list"
  all_top_stocks :: "(qkey \<times> (string \<times> fnum) list) list"
  all_loadings :: "(qkey \<times> matrix) list"

text \<open>
  The inputs of a backtest: the price table after lines 74 to 83 (\<open>None\<close> when no
  table was given or its preparation failed), the labels of \<open>fundamental_df.columns\<close>,
  and lines 135 to 146 as a function from the window columns to the frame
  \<open>mean_df.dropna()\<close> (numeric coercion and row means of the cell values, on which no
  property below depends).
\<close>

record inputs =
  price_ts :: "price_table option"
  fundamental_columns :: "ustr list"
  mean_df_of :: "ustr list \<Rightarrow> frame"

text \<open>
  Lines 97 and 98: the first row, in index order, dated on or after the trade date;
  \<open>None\<close> is the \<open>IndexError\<close> of \<open>[0]\<close> on an empty selection.
\<close>

definition actual_trade_row :: "price_table \<Rightarrow> date \<Rightarrow> (date \<times> snapshot) option" where
  "actual_trade_row pt trade_date =
     (case filter (\<lambda>r. date_le trade_date (fst r)) pt of
        [] \<Rightarrow> None
      | r # _ \<Rightarrow> Some r)"

text \<open>Line 106 (and line 188): the value of the holdings at a row of prices.\<close>

definition stock_value :: "snapshot \<Rightarrow> (string \<times> fnum) list \<Rightarrow> fnum" where
  "stock_value prices portfolio =
     py_sum (map (\<lambda>(name, shares). fl_mul shares (series_get prices name (Fin 0))) portfolio)"

text \<open>
  Step 1, lines 96 to 112, for a price table that is present: \<open>None\<close> is the
  \<open>continue\<close> of line 101; otherwise the prices of the actual trade date and the state
  with the history entry written, the cash reset and the holdings cleared.
\<close>

definition period_start ::
  "price_table \<Rightarrow> nat \<Rightarrow> date \<Rightarrow> sim_state \<Rightarrow> (snapshot \<times> sim_state) option" where
  "period_start pt i trade_date st =
     (case actual_trade_row pt trade_date of
        None \<Rightarrow> None
      | Some (actual_trade_date, prices_on_trade_date) \<Rightarrow>
          (let total_asset_value =
                 (if i = 0 then Fin INITIAL_CAPITAL
                  else fl_add (stock_value prices_on_trade_date (current_portfolio st)) (cash st))
           in Some (prices_on_trade_date,
                st\<lparr>portfolio_history :=
                     dict_set (portfolio_history st) (quarter_str trade_date)
                       \<lparr>start_asset = total_asset_value, end_asset = None\<rparr>,
                   cash := total_asset_value,
                   current_portfolio := []\<rparr>)))"

text \<open>
  Step 2, lines 115 to 154: \<open>Inr None\<close> is either \<open>continue\<close> (no window column, or the
  extractor returned \<open>(None, None)\<close>).
\<close>

definition scoring ::
  "library \<Rightarrow> inputs \<Rightarrow> date \<Rightarrow> py_error + (matrix \<times> (string \<times> fnum) list) option" where
  "scoring lib inp trade_date =
     (case window_cols_of trade_date (fundamental_columns inp) of
        Inl e \<Rightarrow> Inl e
      | Inr window_cols \<Rightarrow>
          (if window_cols = [] then Inr None
           else rolling_factor_analysis_and_ranking lib (mean_df_of inp window_cols)
                  DEFAULT_MIN_CUM_VAR DEFAULT_MAX_FACTOR))"

text \<open>
  Lines 165 to 169: the target names that are labels of the row, then those whose price
  is not NaN and greater than 0.
\<close>

definition tradable_names_of :: "snapshot \<Rightarrow> string list \<Rightarrow> string list" where
  "tradable_names_of prices target_names =
     filter (\<lambda>name. notna (series_get prices name NaN)
                   \<and> fl_less (Fin 0) (series_get prices name (Fin 0)))
       (filter (\<lambda>name. name \<in> set (map fst prices)) target_names)"

text \<open>Lines 172 to 176: the purchases, one name after the other.\<close>

fun buy_loop ::
  "snapshot \<Rightarrow> fnum \<Rightarrow> string list \<Rightarrow> (string \<times> fnum) list \<times> fnum \<Rightarrow> (string \<times> fnum) list \<times> fnum" where
  "buy_loop prices investment_per_stock [] (portfolio, cash_left) = (portfolio, cash_left)"
| "buy_loop prices investment_per_stock (name # rest) (portfolio, cash_left) =
     (let price = series_get prices name NaN;
          shares = fl_div investment_per_stock price
      in buy_loop prices investment_per_stock rest
           (dict_set portfolio name shares, fl_sub cash_left investment_per_stock))"

text \<open>Step 3 for a quarter that is not the last one, lines 159 to 179.\<close>

definition build_positions :: "snapshot \<Rightarrow> string list \<Rightarrow> sim_state \<Rightarrow> sim_state" where
  "build_positions prices target_names st =
     (let tradable_names = tradable_names_of prices target_names
      in if tradable_names \<noteq> [] then
           (let investment_per_stock = fl_div (cash st) (Fin (real (length tradable_names)));
                (portfolio, cash_left) =
                   buy_loop prices investment_per_stock tradable_names
                     (current_portfolio st, cash st)
            in st\<lparr>current_portfolio := portfolio, cash := cash_left\<rparr>)
         else st)"

text \<open>Lines 149 and 150: the loadings and the top names of the quarter are stored.\<close>

definition scored :: "sim_state \<Rightarrow> date \<Rightarrow> matrix \<Rightarrow> (string \<times> fnum) list \<Rightarrow> sim_state" where
  "scored st1 trade_date loadings ranked_stocks =
     st1\<lparr>all_loadings := dict_set (all_loadings st1) (quarter_str trade_date) loadings,
         all_top_stocks :=
           dict_set (all_top_stocks st1) (quarter_str trade_date)
             (take TOP_N_STOCKS ranked_stocks)\<rparr>"

text \<open>
  The body of the loop for quarter number \<open>i\<close>; \<open>last_quarter\<close> is \<open>quarters[-1]\<close>.
  \<open>Inl\<close> is an exception that leaves \<open>backtest_and_analyze\<close>. Step 1 and step 3 run
  only with a price table; the target names of step 3 are the names stored in step 2.
\<close>

definition process_quarter ::
  "library \<Rightarrow> inputs \<Rightarrow> date \<Rightarrow> nat \<Rightarrow> date \<Rightarrow> sim_state \<Rightarrow> py_error + sim_state" where
  "process_quarter lib inp last_quarter i trade_date st =
     (case (case price_ts inp of
              None \<Rightarrow> Some (None, st)
            | Some pt \<Rightarrow>
                (case period_start pt i trade_date st of
                   None \<Rightarrow> None
                 | Some (prices, st1) \<Rightarrow> Some (Some prices, st1))) of
        None \<Rightarrow> Inr st
      | Some (prices_opt, st1) \<Rightarrow>
          (case scoring lib inp trade_date of
             Inl e \<Rightarrow> Inl e
           | Inr None \<Rightarrow> Inr st1
           | Inr (Some (loadings, ranked_stocks)) \<Rightarrow>
               (let st2 = scored st1 trade_date loadings ranked_stocks
                in case prices_opt of
                     None \<Rightarrow> Inr st2
                   | Some prices \<Rightarrow>
                       (if trade_date \<noteq> last_quarter
                        then Inr (build_positions prices
                                    (map fst (take TOP_N_STOCKS ranked_stocks)) st2)
                        else Inr st2))))"

text \<open>The loop \<open>for i, trade_date in enumerate(quarters)\<close>, from index \<open>i\<close> on.\<close>

fun run_quarters ::
  "library \<Rightarrow> inputs \<Rightarrow> date \<Rightarrow> nat \<Rightarrow> date list \<Rightarrow> sim_state \<Rightarrow> py_error + sim_state" where
  "run_quarters lib inp last_quarter i [] st = Inr st"
| "run_quarters lib inp last_quarter i (trade_date # rest) st =
     (case process_quarter lib inp last_quarter i trade_date st of
        Inl e \<Rightarrow> Inl e
      | Inr st' \<Rightarrow> run_quarters lib inp last_quarter (Suc i) rest st')"

text \<open>Lines 184 to 191: the value to attach, at the last row of the price table.\<close>

definition final_asset_value_of :: "price_table \<Rightarrow> sim_state \<Rightarrow> fnum" where
  "final_asset_value_of pt st =
     (if current_portfolio st \<noteq> [] then
        (if pt = [] then cash st
         else fl_add (cash st) (stock_value (snd (last pt)) (current_portfolio st)))
      else cash st)"

text \<open>\<open>portfolio_history[key]['end_asset'] = v\<close> for a key that is present.\<close>

definition set_end_asset ::
  "(qkey \<times> hist_entry) list \<Rightarrow> qkey \<Rightarrow> fnum \<Rightarrow> (qkey \<times> hist_entry) list" where
  "set_end_asset history key v =
     map (\<lambda>(k, h). if k = key then (k, h\<lparr>end_asset := Some v\<rparr>) else (k, h)) history"

text \<open>Step 4, lines 182 to 195.\<close>

definition final_liquidation :: "inputs \<Rightarrow> date \<Rightarrow> sim_state \<Rightarrow> sim_state" where
  "final_liquidation inp last_quarter st =
     (case price_ts inp of
        None \<Rightarrow> st
      | Some pt \<Rightarrow>
          (if portfolio_history st \<noteq> [] then
             (let last_q_str = quarter_str last_quarter;
                  final_asset_value = final_asset_value_of pt st
              in if last_q_str \<in> set (map fst (portfolio_history st))
                 then st\<lparr>portfolio_history :=
                          set_end_asset (portfolio_history st) last_q_str final_asset_value\<rparr>
                 else st)
           else st))"

definition initial_state :: sim_state where
  "initial_state =
     \<lparr>cash = Fin INITIAL_CAPITAL, current_portfolio = [], portfolio_history = [],
      all_top_stocks = [], all_loadings = []\<rparr>"

text \<open>
  The loop and the liquidation over a list of quarters; the function returns the three
  dictionaries of the final state.
\<close>

definition backtest_over :: "date list \<Rightarrow> library \<Rightarrow> inputs \<Rightarrow> py_error + sim_state" where
  "backtest_over qs lib inp =
     (case run_quarters lib inp (last qs) 0 qs initial_state of
        Inl e \<Rightarrow> Inl e
      | Inr st \<Rightarrow> Inr (final_liquidation inp (last qs) st))"

definition backtest_and_analyze :: "library \<Rightarrow> inputs \<Rightarrow> py_error + sim_state" where
  "backtest_and_analyze lib inp = backtest_over quarters lib inp"

section \<open>Performance accountant\<close>

text \<open>
  Lines 206 to 208 of \<open>generate_visualizations\<close>. The rows of the detail table follow
  the history in insertion order. \<open>pct_change\<close> divides each value by the one before
  it and subtracts 1 (the first row has no value before it and gets NaN); \<open>fillna(0)\<close>
  then replaces every NaN of the column.
\<close>

definition shift1 :: "fnum list \<Rightarrow> fnum list" where
  "shift1 xs = take (length xs) (NaN # xs)"

definition pct_change :: "fnum list \<Rightarrow> fnum list" where
  "pct_change xs = map2 (\<lambda>x before. fl_sub (fl_div x before) (Fin 1)) xs (shift1 xs)"

definition fillna :: "fnum \<Rightarrow> fnum list \<Rightarrow> fnum list" where
  "fillna v xs = map (\<lambda>x. if x = NaN then v else x) xs"

definition period_returns :: "(qkey \<times> hist_entry) list \<Rightarrow> fnum list" where
  "period_returns history =
     fillna (Fin 0)
       (map (\<lambda>r. fl_mul r (Fin 100)) (pct_change (map (\<lambda>(q, h). start_asset h) history)))"

text \<open>The four columns of the detail table, one row per recorded quarter.\<close>

record detail_row =
  row_quarter :: qkey
  row_start_asset :: fnum
  row_end_asset :: "fnum option"
  row_return :: fnum

definition history_df :: "(qkey \<times> hist_entry) list \<Rightarrow> detail_row list" where
  "history_df history =
     map2 (\<lambda>(q, h) r. \<lparr>row_quarter = q, row_start_asset = start_asset h,
                         row_end_asset = end_asset h, row_return = r\<rparr>)
       history (period_returns history)"

text \<open>
  The percentage change in the words of the specification: the change of a value
  relative to the value before it, in percent.
\<close>

definition spec_percentage_change :: "fnum \<Rightarrow> fnum \<Rightarrow> fnum" where
  "spec_percentage_change before x = fl_mul (fl_div (fl_sub x before) before) (Fin 100)"


section \<open>A sorting procedure and example inputs\<close>

text \<open>
  A procedure that returns the positions of a list in ascending order of the values and
  keeps equal values in their order of appearance: it inserts the positions one by one,
  from the last to the first. The examples use it where the library's sort is needed.
\<close>

fun insert_before_ge :: "fnum list \<Rightarrow> nat \<Rightarrow> nat list \<Rightarrow> nat list" where
  "insert_before_ge ks i [] = [i]"
| "insert_before_ge ks i (j # js) =
     (if np_less (ks ! j) (ks ! i) then j # insert_before_ge ks i js else i # j # js)"

definition stable_argsort :: "fnum list \<Rightarrow> nat list" where
  "stable_argsort ks = foldr (insert_before_ge ks) [0..<length ks] []"

text \<open>
  A small market: securities A and B, one indicator; a library whose factor model has
  one factor, loads the indicator with 1 and scores A with \<open>-1\<close> and B with 1.
\<close>

definition example_library :: library where
  "example_library =
     \<lparr>scaler_fit_transform = (\<lambda>rows. if rows = [] then Inl ValueError else Inr [[- 1], [1]]),
      fa_fit_transform = (\<lambda>n X. Some ([[- 1], [1]], [[1]])),
      np_argsort = stable_argsort\<rparr>"

definition example_frame :: frame where
  "example_frame =
     \<lparr>f_names = [''A'', ''B''], f_columns = [[82, 79, 69]], f_rows = [[Fin 1], [Fin 2]]\<rparr>"

text \<open>
  Labels: the name column; the indicator ROE reported for the 2019 annual, 2020
  mid-year, 2020 third-quarter and 2020 annual reports (a line feed after the name,
  the bracketed period marker, the year and the tag); and a label without any period.
\<close>

definition label_name :: ustr where
  "label_name = [35777, 21048, 21517, 31216]"

definition label_2019_annual :: ustr where
  "label_2019_annual =
     [82, 79, 69, 10, 91, 25253, 21578, 26399, 93, 32, 50, 48, 49, 57, 24180, 25253]"

definition label_2020_mid :: ustr where
  "label_2020_mid =
     [82, 79, 69, 10, 91, 25253, 21578, 26399, 93, 32, 50, 48, 50, 48, 20013, 25253]"

definition label_2020_third :: ustr where
  "label_2020_third =
     [82, 79, 69, 10, 91, 25253, 21578, 26399, 93, 32, 50, 48, 50, 48, 19977, 23395]"

definition label_2020_annual :: ustr where
  "label_2020_annual =
     [82, 79, 69, 10, 91, 25253, 21578, 26399, 93, 32, 50, 48, 50, 48, 24180, 25253]"

definition label_note :: ustr where
  "label_note = [22791, 27880]"

definition example_columns :: "ustr list" where
  "example_columns =
     [label_name, label_2019_annual, label_2020_mid, label_2020_third, label_2020_annual,
      label_note]"

definition example_inputs :: "price_table \<Rightarrow> inputs" where
  "example_inputs pt =
     \<lparr>price_ts = Some pt, fundamental_columns = example_columns,
      mean_df_of = (\<lambda>window_cols. example_frame)\<rparr>"


section \<open>Invariant of the holdings\<close>

text \<open>
  The holdings are the purchases of the quarter with trade date \<open>trade_date\<close>: the
  price table has a row for it (the first row dated on or after it), the history has
  the start asset of the quarter and the dictionary of top names has its top names; at
  least one of these names passes the filter of step 3, they are at most
  \<open>TOP_N_STOCKS\<close>, and the holdings are what the purchase loop returns for the passing
  names at that row, with the start asset divided by their number paid for each.
\<close>

definition bought_in_quarter :: "price_table \<Rightarrow> sim_state \<Rightarrow> date \<Rightarrow> bool" where
  "bought_in_quarter pt st trade_date =
     (case actual_trade_row pt trade_date of
        None \<Rightarrow> False
      | Some (actual_trade_date, prices) \<Rightarrow>
          (case map_of (portfolio_history st) (quarter_str trade_date) of
             None \<Rightarrow> False
           | Some h \<Rightarrow>
               (case map_of (all_top_stocks st) (quarter_str trade_date) of
                  None \<Rightarrow> False
                | Some top_stocks \<Rightarrow>
                    (let tradable_names = tradable_names_of prices (map fst top_stocks);
                         investment_per_stock =
                           fl_div (start_asset h) (Fin (real (length tradable_names)))
                     in tradable_names \<noteq> [] \<and> length top_stocks \<le> TOP_N_STOCKS
                        \<and> current_portfolio st
                            = fst (buy_loop prices investment_per_stock tradable_names
                                     ([], start_asset h))))))"

text \<open>
  The same for one holding \<open>(name, shares)\<close>: the name is a top name of the quarter,
  the row of the quarter lists it with a price that is not NaN and greater than 0, and
  the shares are the allocated cash (the start asset of the quarter divided by the
  number of names that pass the filter) divided by that price.
\<close>

definition share_of_purchase ::
  "price_table \<Rightarrow> sim_state \<Rightarrow> date \<Rightarrow> string \<times> fnum \<Rightarrow> bool" where
  "share_of_purchase pt st trade_date holding =
     (\<exists>actual_trade_date prices h top_stocks price.
        actual_trade_row pt trade_date = Some (actual_trade_date, prices)
        \<and> map_of (portfolio_history st) (quarter_str trade_date) = Some h
        \<and> map_of (all_top_stocks st) (quarter_str trade_date) = Some top_stocks
        \<and> fst holding \<in> set (map fst top_stocks)
        \<and> map_of prices (fst holding) = Some price
        \<and> notna price \<and> fl_less (Fin 0) price
        \<and> snd holding
            = fl_div (fl_div (start_asset h)
                        (Fin (real (length (tradable_names_of prices (map fst top_stocks))))))
                price)"

text \<open>
  The invariant of the loop over the quarters in \<open>dates\<close>: the holdings are empty, or
  there is a price table and they are the purchases of one of these quarters.
\<close>

definition holdings_inv :: "inputs \<Rightarrow> date set \<Rightarrow> sim_state \<Rightarrow> bool" where
  "holdings_inv inp dates st =
     (current_portfolio st = []
      \<or> (\<exists>pt. price_ts inp = Some pt
            \<and> (\<exists>trade_date \<in> dates. bought_in_quarter pt st trade_date)))"


text \<open>
  Price tables for the small market: one with a single row, on the first trade date;
  one whose second row has no price for B (an empty cell, NaN); one whose single row
  prices A at 0 and has no price for B.
\<close>

definition prices_one_row :: price_table where
  "prices_one_row = [(Date 2021 4 1, [(''A'', Fin 10), (''B'', Fin 8)])]"

definition prices_b_unpriced :: price_table where
  "prices_b_unpriced =
     [(Date 2021 4 1, [(''A'', Fin 10), (''B'', Fin 8)]),
      (Date 2021 7 1, [(''A'', Fin 10), (''B'', NaN)])]"


text \<open>The state of the small market after its first quarter, bought at the single row.\<close>

definition state_after_first :: sim_state where
  "state_after_first =
     \<lparr>cash = Fin 0,
      current_portfolio = [(''B'', Fin 62500), (''A'', Fin 50000)],
      portfolio_history = [((2021, 2), \<lparr>start_asset = Fin 1000000, end_asset = None\<rparr>)],
      all_top_stocks = [((2021, 2), [(''B'', Fin 1), (''A'', Fin (- 1))])],
      all_loadings = [((2021, 2), [[1]])]\<rparr>"


text \<open>No entry of the history carries an \<open>end_asset\<close>.\<close>

definition no_end_asset :: "sim_state \<Rightarrow> bool" where
  "no_end_asset st = list_all (\<lambda>e. end_asset (snd e) = None) (portfolio_history st)"


text \<open>A history with a start asset that is NaN, as the second quarter above records it.\<close>

definition history_with_nan :: "(qkey \<times> hist_entry) list" where
  "history_with_nan =
     [((2021, 2), \<lparr>start_asset = Fin 1000000, end_asset = None\<rparr>),
      ((2021, 3), \<lparr>start_asset = Fin 1200000, end_asset = None\<rparr>),
      ((2021, 4), \<lparr>start_asset = NaN, end_asset = None\<rparr>)]"


text \<open>
  A window in which a single security has complete data, with two indicators: every
  standardized column is constant 0, and the factor model fitted to it has loadings 0
  and scores 0 (one factor is all a single row supports).
\<close>

definition single_security_frame :: frame where
  "single_security_frame =
     \<lparr>f_names = [''A''], f_columns = [[82, 79, 69], [82, 79, 65]],
      f_rows = [[Fin 1, Fin 2]]\<rparr>"

definition zero_loadings_library :: library where
  "zero_loadings_library =
     \<lparr>scaler_fit_transform = (\<lambda>rows. if rows = [] then Inl ValueError else Inr [[0, 0]]),
      fa_fit_transform = (\<lambda>n X. Some ([[0]], [[0, 0]])),
      np_argsort = stable_argsort\<rparr>"


section \<open>What the sort guarantees\<close>

text \<open>
  What numpy documents for \<open>argsort\<close> of any kind, on values without NaN: the result
  lists every position once, in ascending order of the values. The default kind
  \<open>'quicksort'\<close> promises nothing about the order of equal values.
\<close>

definition argsort_ok :: "(fnum list \<Rightarrow> nat list) \<Rightarrow> bool" where
  "argsort_ok argsort =
     (\<forall>ks. NaN \<notin> set ks \<longrightarrow>
        mset (argsort ks) = mset [0..<length ks]
        \<and> sorted_wrt (\<lambda>i j. \<not> np_less (ks ! j) (ks ! i)) (argsort ks))"

text \<open>
  Descending order of scores with NaN last: \<open>a\<close> may stand before \<open>b\<close> when \<open>b\<close> is NaN,
  or \<open>a\<close> is a number (or infinity) not less than \<open>b\<close>.
\<close>

definition ranks_before :: "fnum \<Rightarrow> fnum \<Rightarrow> bool" where
  "ranks_before a b = (b = NaN \<or> (a \<noteq> NaN \<and> \<not> fl_less a b))"


section \<open>The tradable names in the words of the claim\<close>

text \<open>
  The claim on quarters without tradable names describes them as the names present in
  the row with a finite, strictly positive price. The filter of step 3
  (\<open>tradable_names_of\<close>) asks for a price that is not NaN and greater than 0, which
  the price \<open>+inf\<close> passes.
\<close>

definition claimed_tradable_names :: "snapshot \<Rightarrow> string list \<Rightarrow> string list" where
  "claimed_tradable_names prices target_names =
     filter (\<lambda>name. case map_of prices name of Some (Fin p) \<Rightarrow> 0 < p | _ \<Rightarrow> False)
       target_names"



text \<open>
  Labels for the resolver: the 2020 mid-year report with the year in full-width digits,
  and the 2020 third-quarter report with a line feed between the year and the tag.
\<close>

definition label_fullwidth_mid :: ustr where
  "label_fullwidth_mid = [65298, 65296, 65298, 65296, 20013, 25253]"

definition label_split_third :: ustr where
  "label_split_third = [50, 48, 50, 48, 10, 19977, 23395]"

definition resolver_columns :: "ustr list" where
  "resolver_columns =
     [label_name, label_fullwidth_mid, label_split_third, label_2020_annual, label_note]"


section \<open>Properties\<close>


subsection \<open>Dictionaries, purchases and the loop body\<close>

lemma dict_set_keys: "fst ` set (dict_set kvs k v) = insert k (fst ` set kvs)"
  by (induction kvs k v rule: dict_set.induct) auto

lemma dict_set_entries: "e \<in> set (dict_set kvs k v) \<Longrightarrow> e = (k, v) \<or> e \<in> set kvs"
  by (induction kvs k v rule: dict_set.induct) (auto split: if_splits)

lemma buy_loop_keys:
  "buy_loop prices amt names (pf, c) = (pf', c')
   \<Longrightarrow> fst ` set pf' = fst ` set pf \<union> set names"
proof (induction names arbitrary: pf c)
  case Nil
  then show ?case by simp
next
  case (Cons name rest)
  from Cons.prems have
    "buy_loop prices amt rest
       (dict_set pf name (fl_div amt (series_get prices name NaN)), fl_sub c amt) = (pf', c')"
    by (simp add: Let_def)
  from Cons.IH [OF this] show ?case
    by (simp add: dict_set_keys)
qed

lemma buy_loop_entries:
  "buy_loop prices amt names (pf, c) = (pf', c') \<Longrightarrow> h \<in> set pf'
   \<Longrightarrow> h \<in> set pf \<or> (fst h \<in> set names \<and> snd h = fl_div amt (series_get prices (fst h) NaN))"
proof (induction names arbitrary: pf c)
  case Nil
  then show ?case by simp
next
  case (Cons name rest)
  from Cons.prems(1) have
    "buy_loop prices amt rest
       (dict_set pf name (fl_div amt (series_get prices name NaN)), fl_sub c amt) = (pf', c')"
    by (simp add: Let_def)
  from Cons.IH [OF this Cons.prems(2)]
  have "h \<in> set (dict_set pf name (fl_div amt (series_get prices name NaN)))
        \<or> (fst h \<in> set rest \<and> snd h = fl_div amt (series_get prices (fst h) NaN))" .
  then show ?case
  proof
    assume "h \<in> set (dict_set pf name (fl_div amt (series_get prices name NaN)))"
    from dict_set_entries [OF this] show ?thesis by auto
  next
    assume "fst h \<in> set rest \<and> snd h = fl_div amt (series_get prices (fst h) NaN)"
    then show ?thesis by simp
  qed
qed


lemma actual_trade_row_in_table:
  "actual_trade_row pt trade_date = Some r \<Longrightarrow> r \<in> set pt \<and> date_le trade_date (fst r)"
proof -
  assume a: "actual_trade_row pt trade_date = Some r"
  then obtain rs where "filter (\<lambda>r. date_le trade_date (fst r)) pt = r # rs"
    by (auto simp: actual_trade_row_def split: list.splits)
  then have "r \<in> set (filter (\<lambda>r. date_le trade_date (fst r)) pt)" by simp
  then show ?thesis by simp
qed

lemma tradable_name_listed:
  assumes "name \<in> set (tradable_names_of prices target_names)"
  shows "name \<in> set target_names
       \<and> (\<exists>price. map_of prices name = Some price \<and> notna price \<and> fl_less (Fin 0) price
            \<and> series_get prices name NaN = price)"
proof -
  from assms have t: "name \<in> set target_names" and m: "name \<in> set (map fst prices)"
    and n: "notna (series_get prices name NaN)"
    and p: "fl_less (Fin 0) (series_get prices name (Fin 0))"
    by (auto simp: tradable_names_of_def)
  from m obtain price where "map_of prices name = Some price"
    by (metis map_of_eq_None_iff not_Some_eq set_map)
  with n p t show ?thesis by (simp add: series_get_def)
qed

lemma period_start_clears:
  assumes "period_start pt i trade_date st = Some (prices, st1)"
  shows "current_portfolio st1 = [] \<and> prices \<in> snd ` set pt
       \<and> portfolio_history st1
              = dict_set (portfolio_history st) (quarter_str trade_date)
                  \<lparr>start_asset = cash st1, end_asset = None\<rparr>
       \<and> all_top_stocks st1 = all_top_stocks st \<and> all_loadings st1 = all_loadings st"
proof -
  from assms obtain r where r: "actual_trade_row pt trade_date = Some r"
    by (cases "actual_trade_row pt trade_date") (simp_all add: period_start_def)
  obtain d p where dp: "r = (d, p)" by (cases r)
  from actual_trade_row_in_table [OF r] dp have "p \<in> snd ` set pt" by force
  moreover from assms r dp have "prices = p" by (simp add: period_start_def Let_def)
  moreover from assms r dp have "current_portfolio st1 = []"
    by (auto simp: period_start_def Let_def)
  moreover from assms r dp have "portfolio_history st1
              = dict_set (portfolio_history st) (quarter_str trade_date)
                  \<lparr>start_asset = cash st1, end_asset = None\<rparr>"
    by (auto simp: period_start_def Let_def)
  moreover from assms r dp have "all_top_stocks st1 = all_top_stocks st \<and> all_loadings st1 = all_loadings st"
    by (auto simp: period_start_def Let_def)
  ultimately show ?thesis by simp
qed

lemma map_of_dict_set: "map_of (dict_set kvs k v) = (map_of kvs)(k \<mapsto> v)"
  by (induction kvs k v rule: dict_set.induct) auto

lemma map_of_set_end_asset:
  "map_of (set_end_asset history key v) k
     = map_option (\<lambda>h. if k = key then h\<lparr>end_asset := Some v\<rparr> else h) (map_of history k)"
  unfolding set_end_asset_def by (induction history) auto

lemma period_start_row:
  assumes "period_start pt i trade_date st = Some (prices, st1)"
  shows "\<exists>actual_trade_date. actual_trade_row pt trade_date = Some (actual_trade_date, prices)"
  using assms by (auto simp: period_start_def Let_def split: option.splits)

lemma build_positions_bought:
  assumes ps: "period_start pt i trade_date st = Some (prices, st1)"
    and tr: "tradable_names_of prices (map fst (take TOP_N_STOCKS ranked_stocks)) \<noteq> []"
  shows "bought_in_quarter pt
           (build_positions prices (map fst (take TOP_N_STOCKS ranked_stocks))
              (scored st1 trade_date loadings ranked_stocks)) trade_date"
proof -
  let ?top = "take TOP_N_STOCKS ranked_stocks"
  let ?names = "tradable_names_of prices (map fst ?top)"
  let ?amt = "fl_div (cash st1) (Fin (real (length ?names)))"
  let ?st2 = "scored st1 trade_date loadings ranked_stocks"
  let ?st3 = "build_positions prices (map fst ?top) ?st2"
  note cl = period_start_clears [OF ps]
  from period_start_row [OF ps] obtain d where
    row: "actual_trade_row pt trade_date = Some (d, prices)" by blast
  obtain pf c where b: "buy_loop prices ?amt ?names ([], cash st1) = (pf, c)"
    by fastforce
  have st2: "current_portfolio ?st2 = []" "cash ?st2 = cash st1"
    using cl by (simp_all add: scored_def)
  have pf: "current_portfolio ?st3 = pf"
    using tr b st2 by (simp add: build_positions_def Let_def)
  have "portfolio_history ?st3 = portfolio_history st1"
    by (simp add: build_positions_def scored_def Let_def split: prod.split)
  then have h: "map_of (portfolio_history ?st3) (quarter_str trade_date)
                  = Some \<lparr>start_asset = cash st1, end_asset = None\<rparr>"
    using cl by (simp add: map_of_dict_set)
  have "all_top_stocks ?st3 = dict_set (all_top_stocks st1) (quarter_str trade_date) ?top"
    by (simp add: build_positions_def scored_def Let_def split: prod.split)
  then have t: "map_of (all_top_stocks ?st3) (quarter_str trade_date) = Some ?top"
    by (simp add: map_of_dict_set)
  have len: "length ?top \<le> TOP_N_STOCKS" by simp
  show ?thesis
    unfolding bought_in_quarter_def row h t
    using tr len pf b by (simp add: Let_def)
qed

lemma process_quarter_no_table:
  assumes "price_ts inp = None"
  shows "process_quarter lib inp last_quarter i trade_date st =
           (case scoring lib inp trade_date of
              Inl e \<Rightarrow> Inl e
            | Inr None \<Rightarrow> Inr st
            | Inr (Some (loadings, ranked_stocks)) \<Rightarrow>
                Inr (scored st trade_date loadings ranked_stocks))"
  using assms
  by (simp add: process_quarter_def Let_def split: sum.split option.split)

lemma process_quarter_skipped:
  assumes "price_ts inp = Some pt" and "period_start pt i trade_date st = None"
  shows "process_quarter lib inp last_quarter i trade_date st = Inr st"
  using assms by (simp add: process_quarter_def)

lemma process_quarter_started:
  assumes "price_ts inp = Some pt" and "period_start pt i trade_date st = Some (prices, st1)"
  shows "process_quarter lib inp last_quarter i trade_date st =
           (case scoring lib inp trade_date of
              Inl e \<Rightarrow> Inl e
            | Inr None \<Rightarrow> Inr st1
            | Inr (Some (loadings, ranked_stocks)) \<Rightarrow>
                (if trade_date \<noteq> last_quarter
                 then Inr (build_positions prices (map fst (take TOP_N_STOCKS ranked_stocks))
                             (scored st1 trade_date loadings ranked_stocks))
                 else Inr (scored st1 trade_date loadings ranked_stocks)))"
  using assms
  by (simp add: process_quarter_def Let_def split: sum.split option.split)

lemma process_quarter_holdings:
  assumes "holdings_inv inp dates st"
    and "process_quarter lib inp last_quarter i trade_date st = Inr st'"
  shows "holdings_inv inp (insert trade_date dates) st'"
proof (cases "price_ts inp")
  case None
  have "current_portfolio st' = current_portfolio st"
    using assms(2) unfolding process_quarter_no_table [OF None]
    by (auto simp: scored_def split: sum.splits option.splits)
  then show ?thesis using assms(1) None by (simp add: holdings_inv_def)
next
  case (Some pt)
  show ?thesis
  proof (cases "period_start pt i trade_date st")
    case None
    then have "st' = st" using assms(2) process_quarter_skipped [OF Some None] by simp
    then show ?thesis using assms(1) unfolding holdings_inv_def by blast
  next
    case (Some a)
    then obtain prices st1 where ps: "period_start pt i trade_date st = Some (prices, st1)"
      by (cases a) auto
    note cl = period_start_clears [OF ps]
    have empty_ok: "holdings_inv inp (insert trade_date dates) s"
      if "current_portfolio s = []" for s
      using that by (simp add: holdings_inv_def)
    have built: "holdings_inv inp (insert trade_date dates)
                   (build_positions prices (map fst (take TOP_N_STOCKS ranked))
                     (scored st1 trade_date loadings ranked))" for loadings ranked
    proof (cases "tradable_names_of prices (map fst (take TOP_N_STOCKS ranked)) = []")
      case True
      then have "current_portfolio (build_positions prices (map fst (take TOP_N_STOCKS ranked))
                     (scored st1 trade_date loadings ranked)) = []"
        using cl by (simp add: build_positions_def scored_def)
      then show ?thesis by (rule empty_ok)
    next
      case False
      from build_positions_bought [OF ps False]
      show ?thesis unfolding holdings_inv_def
        using \<open>price_ts inp = Some pt\<close> by blast
    qed
    have "current_portfolio (scored st1 trade_date loadings ranked) = []" for loadings ranked
      using cl by (simp add: scored_def)
    note sc = empty_ok [OF this]
    have st1_ok: "holdings_inv inp (insert trade_date dates) st1" using cl empty_ok by simp
    show ?thesis
      using assms(2) unfolding process_quarter_started [OF \<open>price_ts inp = Some pt\<close> ps]
      using built sc st1_ok
      by (auto split: sum.splits option.splits if_splits)
  qed
qed

lemma run_quarters_holdings:
  "holdings_inv inp dates st \<Longrightarrow> run_quarters lib inp last_quarter i qs st = Inr st'
   \<Longrightarrow> holdings_inv inp (dates \<union> set qs) st'"
proof (induction qs arbitrary: i st dates)
  case Nil
  then show ?case by simp
next
  case (Cons q qs)
  from Cons.prems(2) obtain s where
    s: "process_quarter lib inp last_quarter i q st = Inr s"
    and r: "run_quarters lib inp last_quarter (Suc i) qs s = Inr st'"
    by (cases "process_quarter lib inp last_quarter i q st") simp_all
  from Cons.IH [OF process_quarter_holdings [OF Cons.prems(1) s] r] show ?case by simp
qed

lemma bought_in_quarter_holdings:
  assumes "bought_in_quarter pt st trade_date"
  shows "card (fst ` set (current_portfolio st)) \<le> TOP_N_STOCKS
       \<and> (\<forall>holding \<in> set (current_portfolio st). share_of_purchase pt st trade_date holding)"
proof -
  from assms obtain d prices where row: "actual_trade_row pt trade_date = Some (d, prices)"
    by (auto simp: bought_in_quarter_def split: option.splits)
  from assms row obtain h where
    h: "map_of (portfolio_history st) (quarter_str trade_date) = Some h"
    by (auto simp: bought_in_quarter_def split: option.splits)
  from assms row h obtain top_stocks where
    t: "map_of (all_top_stocks st) (quarter_str trade_date) = Some top_stocks"
    by (auto simp: bought_in_quarter_def split: option.splits)
  let ?names = "tradable_names_of prices (map fst top_stocks)"
  let ?amt = "fl_div (start_asset h) (Fin (real (length ?names)))"
  from assms row h t have len: "length top_stocks \<le> TOP_N_STOCKS"
    and pf: "current_portfolio st = fst (buy_loop prices ?amt ?names ([], start_asset h))"
    by (simp_all add: bought_in_quarter_def Let_def)
  obtain c where b: "buy_loop prices ?amt ?names ([], start_asset h) = (current_portfolio st, c)"
    using pf by (cases "buy_loop prices ?amt ?names ([], start_asset h)") simp
  have keys: "fst ` set (current_portfolio st) = set ?names"
    using buy_loop_keys [OF b] by simp
  have "card (set ?names) \<le> length ?names" by (rule card_length)
  also have "\<dots> \<le> length (map fst top_stocks)"
    unfolding tradable_names_of_def by (meson le_trans length_filter_le)
  finally have card: "card (fst ` set (current_portfolio st)) \<le> TOP_N_STOCKS"
    using keys len by simp
  have each: "share_of_purchase pt st trade_date holding"
    if "holding \<in> set (current_portfolio st)" for holding
  proof -
    from buy_loop_entries [OF b that]
    have n: "fst holding \<in> set ?names"
      and s: "snd holding = fl_div ?amt (series_get prices (fst holding) NaN)" by auto
    from tradable_name_listed [OF n] obtain price where
      "fst holding \<in> set (map fst top_stocks)"
      "map_of prices (fst holding) = Some price" "notna price" "fl_less (Fin 0) price"
      "series_get prices (fst holding) NaN = price" by blast
    with row h t s show ?thesis
      unfolding share_of_purchase_def by blast
  qed
  from card each show ?thesis by blast
qed



subsection \<open>The small market, evaluated\<close>

lemmas label_defs = label_name_def label_2019_annual_def label_2020_mid_def
  label_2020_third_def label_2020_annual_def label_note_def

text \<open>
  The decimal digits below the code point 1632 are the ASCII digits; the code points
  from 7258 to 42527, where the Chinese characters of the labels and tags lie, hold no
  decimal digit; the full-width digits are the code points 65296 to 65305.
\<close>

lemma digit_value_ranges:
  "c < 48 \<Longrightarrow> digit_value c = None"
  "48 \<le> c \<Longrightarrow> c < 58 \<Longrightarrow> digit_value c = Some (c - 48)"
  "58 \<le> c \<Longrightarrow> c < 1632 \<Longrightarrow> digit_value c = None"
  "7258 \<le> c \<Longrightarrow> c < 42528 \<Longrightarrow> digit_value c = None"
  "65296 \<le> c \<Longrightarrow> c < 65306 \<Longrightarrow> digit_value c = Some (c - 65296)"
  by (simp_all add: digit_value_def decimal_digit_zeros_def)

lemma is_digit_iff:
  "is_digit c \<longleftrightarrow> (\<exists>z \<in> set decimal_digit_zeros. z \<le> c \<and> c < z + 10)"
  by (auto simp: is_digit_def digit_value_def find_None_iff)

lemmas resolver_defs = report_date_of_def replace_newlines_def alt_at_def is_digit_def
  digit_value_ranges year_value_def to_datetime_def date_le_def month_end_def
  days_in_month_def is_leap_def

lemma example_report_dates:
  "report_date_of label_name = None"
  "report_date_of label_2019_annual = Some (Inr (Date 2019 12 31))"
  "report_date_of label_2020_mid = Some (Inr (Date 2020 6 30))"
  "report_date_of label_2020_third = Some (Inr (Date 2020 9 30))"
  "report_date_of label_2020_annual = Some (Inr (Date 2020 12 31))"
  "report_date_of label_note = None"
  by (simp_all add: resolver_defs label_defs)

lemma example_window_q2:
  "window_cols_of (Date 2021 4 1) example_columns = Inr [label_2020_mid, label_2020_third]"
  by (simp add: example_columns_def window_cols_of_def sub_months_def example_report_dates
        date_le_def days_in_month_def)

lemma example_window_q3:
  "window_cols_of (Date 2021 7 1) example_columns
     = Inr [label_2020_mid, label_2020_third, label_2020_annual]"
  by (simp add: example_columns_def window_cols_of_def sub_months_def example_report_dates
        date_le_def days_in_month_def)

lemma example_n_factors: "choose_n_factors [[1]] (4 / 5) = 1"
  by (simp add: choose_n_factors_def cum_shares_def eig_vals_of_def share_of_total_def
        np_cumsum_def searchsorted_def binsearch_left.simps [of _ _ 0 "Suc 0"]
        binsearch_left.simps [of _ _ 0 0] np_less_def)

lemma example_sort:
  "sort_values_desc stable_argsort [(''A'', Fin (- 1)), (''B'', Fin 1)]
     = [(''B'', Fin 1), (''A'', Fin (- 1))]"
  by (simp add: sort_values_desc_def nargsort_desc_def stable_argsort_def np_less_def)

lemma example_extractor:
  "rolling_factor_analysis_and_ranking example_library example_frame
     DEFAULT_MIN_CUM_VAR DEFAULT_MAX_FACTOR
   = Inr (Some ([[1]], [(''B'', Fin 1), (''A'', Fin (- 1))]))"
proof -
  have n: "choose_n_factors [[1]] DEFAULT_MIN_CUM_VAR = 1"
    using example_n_factors by (simp add: DEFAULT_MIN_CUM_VAR_def)
  have w: "share_of_total (eig_vals_of [[1]]) = [Fin 1]"
    by (simp add: share_of_total_def eig_vals_of_def)
  have d: "np_dot [[- 1], [1]] [Fin 1] = Inr [Fin (- 1), Fin 1]"
    by (simp add: np_dot_def inner_def)
  have t: "transpose [[1::real]] = [[1]]"
    by simp
  show ?thesis
    by (simp add: rolling_factor_analysis_and_ranking_def example_library_def example_frame_def
          DEFAULT_MAX_FACTOR_def n w d t example_sort)
qed

lemma label_2020_mid_not_empty: "label_2020_mid \<noteq> []"
  by (simp add: label_2020_mid_def)

lemma example_scoring_q2:
  "scoring example_library (example_inputs pt) (Date 2021 4 1)
     = Inr (Some ([[1]], [(''B'', Fin 1), (''A'', Fin (- 1))]))"
  using example_window_q2 example_extractor
  by (simp add: scoring_def example_inputs_def)

lemma example_scoring_q3:
  "scoring example_library (example_inputs pt) (Date 2021 7 1)
     = Inr (Some ([[1]], [(''B'', Fin 1), (''A'', Fin (- 1))]))"
  using example_window_q3 example_extractor
  by (simp add: scoring_def example_inputs_def)

subsection \<open>A quarter without prices on or after its trade date\<close>

lemma actual_trade_row_none:
  "(\<forall>r \<in> set pt. \<not> date_le trade_date (fst r)) \<Longrightarrow> actual_trade_row pt trade_date = None"
  by (simp add: actual_trade_row_def filter_False)

text \<open>
  C4. When the price table has no row dated on or after the trade date of a quarter,
  the loop body returns the state it was given, unchanged in every variable (cash,
  holdings, history, and the two result dictionaries), and the loop goes on with the
  next quarter from that same state.
\<close>

theorem quarter_without_prices_skipped:
  assumes "price_ts inp = Some pt"
    and "\<forall>r \<in> set pt. \<not> date_le trade_date (fst r)"
  shows "process_quarter lib inp last_quarter i trade_date st = Inr st
       \<and> run_quarters lib inp last_quarter i (trade_date # rest) st
           = run_quarters lib inp last_quarter (Suc i) rest st"
proof -
  have "period_start pt i trade_date st = None"
    using assms(2) by (simp add: period_start_def actual_trade_row_none)
  from process_quarter_skipped [OF assms(1) this]
  have "process_quarter lib inp last_quarter i trade_date st = Inr st" .
  then show ?thesis by simp
qed

theorem quarter_without_prices_skipped_witness:
  "price_ts (example_inputs prices_one_row) = Some prices_one_row
   \<and> list_all (\<lambda>r. \<not> date_le (Date 2021 7 1) (fst r)) prices_one_row
   \<and> process_quarter example_library (example_inputs prices_one_row) (Date 2024 10 1) 1
       (Date 2021 7 1) state_after_first = Inr state_after_first
   \<and> run_quarters example_library (example_inputs prices_one_row) (Date 2024 10 1) 1
       [Date 2021 7 1, Date 2021 10 1] state_after_first
     = run_quarters example_library (example_inputs prices_one_row) (Date 2024 10 1) 2
       [Date 2021 10 1] state_after_first"
proof -
  have h1: "price_ts (example_inputs prices_one_row) = Some prices_one_row"
    by (simp add: example_inputs_def)
  have h2: "\<forall>r \<in> set prices_one_row. \<not> date_le (Date 2021 7 1) (fst r)"
    by (simp add: prices_one_row_def date_le_def)
  from quarter_without_prices_skipped [OF h1 h2, of example_library "Date 2024 10 1" 1
      state_after_first "[Date 2021 10 1]"] h1 h2
  show ?thesis by (simp add: numeral_2_eq_2 list_all_iff)
qed


subsection \<open>A quarter without tradable names\<close>





text \<open>
  The filter of step 3 and the tradable names in the words of the claim (a finite price
  greater than 0) select the same names unless the row prices a target name at \<open>+inf\<close>.
\<close>

lemma claimed_tradable_names_agree:
  assumes "\<forall>name \<in> set target_names. map_of prices name \<noteq> Some PInf"
  shows "claimed_tradable_names prices target_names = tradable_names_of prices target_names"
proof -
  have "(case map_of prices name of Some (Fin p) \<Rightarrow> 0 < p | _ \<Rightarrow> False)
          = (name \<in> set (map fst prices)
             \<and> notna (series_get prices name NaN)
             \<and> fl_less (Fin 0) (series_get prices name (Fin 0)))"
    if "name \<in> set target_names" for name
  proof (cases "map_of prices name")
    case None
    then have "name \<notin> set (map fst prices)" by (simp add: map_of_eq_None_iff)
    with None show ?thesis by simp
  next
    case (Some v)
    then have "name \<in> set (map fst prices)"
      by (metis map_of_eq_None_iff option.distinct(1) set_map)
    moreover from Some assms that have "v \<noteq> PInf" by auto
    ultimately show ?thesis using Some
      by (cases v) (simp_all add: series_get_def notna_def)
  qed
  then show ?thesis
    unfolding claimed_tradable_names_def tradable_names_of_def filter_filter
    by (intro filter_cong) auto
qed







subsection \<open>The terminal value\<close>

lemma build_positions_history:
  "portfolio_history (build_positions prices target_names st) = portfolio_history st"
  by (simp add: build_positions_def Let_def split: prod.split)

lemma scored_history:
  "portfolio_history (scored st trade_date loadings ranked_stocks) = portfolio_history st"
  by (simp add: scored_def)

lemma dict_set_no_end:
  assumes "list_all (\<lambda>e. end_asset (snd e) = None) history"
  shows "list_all (\<lambda>e. end_asset (snd e) = None)
           (dict_set history key \<lparr>start_asset = v, end_asset = None\<rparr>)"
  using assms by (auto simp: list_all_iff dest!: dict_set_entries)

lemma process_quarter_no_end_asset:
  assumes "no_end_asset st"
    and "process_quarter lib inp last_quarter i trade_date st = Inr st'"
  shows "no_end_asset st'"
proof (cases "price_ts inp")
  case None
  have "portfolio_history st' = portfolio_history st"
    using assms(2) unfolding process_quarter_no_table [OF None]
    by (auto simp: scored_def split: sum.splits option.splits)
  then show ?thesis using assms(1) by (simp add: no_end_asset_def)
next
  case (Some pt)
  show ?thesis
  proof (cases "period_start pt i trade_date st")
    case None
    then have "st' = st" using assms(2) process_quarter_skipped [OF Some None] by simp
    then show ?thesis using assms(1) by simp
  next
    case (Some a)
    then obtain prices st1 where ps: "period_start pt i trade_date st = Some (prices, st1)"
      by (cases a) auto
    note cl = period_start_clears [OF ps]
    have "no_end_asset st1"
      using cl assms(1) dict_set_no_end by (simp add: no_end_asset_def)
    moreover have "portfolio_history st' = portfolio_history st1"
      using assms(2) unfolding process_quarter_started [OF \<open>price_ts inp = Some pt\<close> ps]
      by (auto simp: build_positions_history scored_history
               split: sum.splits option.splits if_splits)
    ultimately show ?thesis by (simp add: no_end_asset_def)
  qed
qed

lemma run_quarters_no_end_asset:
  "no_end_asset st \<Longrightarrow> run_quarters lib inp last_quarter i qs st = Inr st'
   \<Longrightarrow> no_end_asset st'"
proof (induction qs arbitrary: i st)
  case Nil
  then show ?case by simp
next
  case (Cons q qs)
  from Cons.prems(2) obtain s where
    s: "process_quarter lib inp last_quarter i q st = Inr s"
    and r: "run_quarters lib inp last_quarter (Suc i) qs s = Inr st'"
    by (cases "process_quarter lib inp last_quarter i q st") simp_all
  from Cons.IH [OF process_quarter_no_end_asset [OF Cons.prems(1) s] r] show ?case .
qed

lemma set_end_asset_entries:
  assumes "list_all (\<lambda>e. end_asset (snd e) = None) history"
    and "e \<in> set (set_end_asset history key v)"
  shows "(fst e = key \<and> end_asset (snd e) = Some v) \<or> (fst e \<noteq> key \<and> end_asset (snd e) = None)"
  using assms by (auto simp: set_end_asset_def list_all_iff split: if_splits)

lemma set_end_asset_keys: "map fst (set_end_asset history key v) = map fst history"
  by (induction history) (auto simp: set_end_asset_def)


text \<open>
  C9. The loop never writes a terminal value; the liquidation writes it only into the
  entry under the key of the last quarter. So in the returned history an entry with a
  terminal value lies under that key, and when the history has no entry under that key
  (the last quarter was skipped) the liquidation returns the state as it is, without a
  terminal value in any entry, whatever cash and holdings remain.
\<close>

theorem terminal_value_only_under_last_key:
  assumes "run_quarters lib inp (last qs) 0 qs initial_state = Inr st"
  shows "backtest_over qs lib inp = Inr (final_liquidation inp (last qs) st)
       \<and> list_all (\<lambda>e. end_asset (snd e) \<noteq> None \<longrightarrow> fst e = quarter_str (last qs))
           (portfolio_history (final_liquidation inp (last qs) st))
       \<and> (quarter_str (last qs) \<notin> set (map fst (portfolio_history st))
            \<longrightarrow> final_liquidation inp (last qs) st = st \<and> no_end_asset st)"
proof -
  have "no_end_asset initial_state"
    by (simp add: no_end_asset_def initial_state_def)
  from run_quarters_no_end_asset [OF this assms] have ne: "no_end_asset st" .
  have b: "backtest_over qs lib inp = Inr (final_liquidation inp (last qs) st)"
    using assms by (simp add: backtest_over_def)
  have absent: "final_liquidation inp (last qs) st = st"
    if "quarter_str (last qs) \<notin> set (map fst (portfolio_history st))"
    using that by (simp add: final_liquidation_def Let_def split: option.split)
  have "end_asset (snd e) \<noteq> None \<longrightarrow> fst e = quarter_str (last qs)"
    if e: "e \<in> set (portfolio_history (final_liquidation inp (last qs) st))" for e
  proof (cases "portfolio_history (final_liquidation inp (last qs) st) = portfolio_history st")
    case True
    with e ne show ?thesis by (simp add: no_end_asset_def list_all_iff)
  next
    case False
    then obtain v where
      "portfolio_history (final_liquidation inp (last qs) st)
         = set_end_asset (portfolio_history st) (quarter_str (last qs)) v"
      by (auto simp: final_liquidation_def Let_def split: option.splits if_splits)
    with e set_end_asset_entries [OF ne [unfolded no_end_asset_def], of e "quarter_str (last qs)" v]
    show ?thesis by auto
  qed
  then have "list_all (\<lambda>e. end_asset (snd e) \<noteq> None \<longrightarrow> fst e = quarter_str (last qs))
           (portfolio_history (final_liquidation inp (last qs) st))"
    by (simp add: list_all_iff)
  with b absent ne show ?thesis by simp
qed

lemma example_period_start_one_row:
  "period_start prices_one_row 0 (Date 2021 4 1) initial_state
     = Some ([(''A'', Fin 10), (''B'', Fin 8)],
         \<lparr>cash = Fin 1000000, current_portfolio = [],
          portfolio_history = [((2021, 2), \<lparr>start_asset = Fin 1000000, end_asset = None\<rparr>)],
          all_top_stocks = [], all_loadings = []\<rparr>)"
  by (simp add: period_start_def actual_trade_row_def prices_one_row_def date_le_def
        initial_state_def INITIAL_CAPITAL_def quarter_str_def Let_def numeral_2_eq_2)

lemma example_first_purchase:
  "build_positions [(''A'', Fin 10), (''B'', Fin 8)] [''B'', ''A'']
     \<lparr>cash = Fin 1000000, current_portfolio = [],
      portfolio_history = [((2021, 2), \<lparr>start_asset = Fin 1000000, end_asset = None\<rparr>)],
      all_top_stocks = [((2021, 2), [(''B'', Fin 1), (''A'', Fin (- 1))])],
      all_loadings = [((2021, 2), [[1]])]\<rparr>
   = state_after_first"
  by (simp add: build_positions_def tradable_names_of_def series_get_def notna_def Let_def
        fl_sub_def state_after_first_def)

lemma example_first_quarter:
  assumes "last_quarter \<noteq> Date 2021 4 1"
  shows "process_quarter example_library (example_inputs prices_one_row) last_quarter 0
           (Date 2021 4 1) initial_state = Inr state_after_first"
proof -
  have h1: "price_ts (example_inputs prices_one_row) = Some prices_one_row"
    by (simp add: example_inputs_def)
  show ?thesis
    unfolding process_quarter_started [OF h1 example_period_start_one_row]
    using assms example_scoring_q2 [of prices_one_row] example_first_purchase
    by (simp add: scored_def quarter_str_def TOP_N_STOCKS_def numeral_2_eq_2)
qed

lemma example_later_quarter:
  assumes "\<not> date_le trade_date (Date 2021 4 1)"
  shows "process_quarter example_library (example_inputs prices_one_row) last_quarter i
           trade_date st = Inr st"
proof -
  have h1: "price_ts (example_inputs prices_one_row) = Some prices_one_row"
    by (simp add: example_inputs_def)
  have "actual_trade_row prices_one_row trade_date = None"
    using assms by (simp add: actual_trade_row_def prices_one_row_def)
  then have "period_start prices_one_row i trade_date st = None"
    by (simp add: period_start_def)
  from process_quarter_skipped [OF h1 this] show ?thesis .
qed

lemma example_run_one_row:
  "run_quarters example_library (example_inputs prices_one_row) (last quarters) 0 quarters
     initial_state = Inr state_after_first"
proof -
  have first: "process_quarter example_library (example_inputs prices_one_row) (last quarters)
                 0 (Date 2021 4 1) initial_state = Inr state_after_first"
    by (rule example_first_quarter) (simp add: quarters_def)
  have later: "process_quarter example_library (example_inputs prices_one_row) (last quarters)
                 i d state_after_first = Inr state_after_first"
    if "\<not> date_le d (Date 2021 4 1)" for i d
    using that by (rule example_later_quarter)
  show ?thesis
    using first later by (simp add: quarters_def date_le_def)
qed

theorem terminal_value_only_under_last_key_witness:
  "backtest_and_analyze example_library (example_inputs prices_one_row) = Inr state_after_first
   \<and> quarter_str (last quarters) \<notin> set (map fst (portfolio_history state_after_first))
   \<and> current_portfolio state_after_first = [(''B'', Fin 62500), (''A'', Fin 50000)]
   \<and> no_end_asset state_after_first"
proof -
  have absent: "quarter_str (last quarters) \<notin> set (map fst (portfolio_history state_after_first))"
    by (simp add: quarters_def quarter_str_def state_after_first_def)
  from terminal_value_only_under_last_key [OF example_run_one_row] absent
  show ?thesis
    by (simp add: backtest_and_analyze_def state_after_first_def)
qed



subsection \<open>The holdings at every point of a backtest\<close>

lemma final_liquidation_portfolio:
  "current_portfolio (final_liquidation inp last_quarter st) = current_portfolio st"
  by (simp add: final_liquidation_def Let_def split: option.split)

text \<open>
  The final liquidation changes neither the holdings nor the top names nor any start
  asset of the history.
\<close>

lemma final_liquidation_bought:
  assumes "bought_in_quarter pt st trade_date"
  shows "bought_in_quarter pt (final_liquidation inp last_quarter st) trade_date"
proof -
  let ?st = "final_liquidation inp last_quarter st"
  from assms obtain d prices where row: "actual_trade_row pt trade_date = Some (d, prices)"
    by (auto simp: bought_in_quarter_def split: option.splits)
  from assms row obtain h where
    h: "map_of (portfolio_history st) (quarter_str trade_date) = Some h"
    by (auto simp: bought_in_quarter_def split: option.splits)
  from assms row h obtain top_stocks where
    t: "map_of (all_top_stocks st) (quarter_str trade_date) = Some top_stocks"
    by (auto simp: bought_in_quarter_def split: option.splits)
  have pf: "current_portfolio ?st = current_portfolio st"
    by (rule final_liquidation_portfolio)
  have t': "all_top_stocks ?st = all_top_stocks st"
    by (simp add: final_liquidation_def Let_def split: option.split)
  have "\<exists>h'. map_of (portfolio_history ?st) (quarter_str trade_date) = Some h'
            \<and> start_asset h' = start_asset h"
    using h by (auto simp: final_liquidation_def Let_def map_of_set_end_asset split: option.split)
  then obtain h' where
    h': "map_of (portfolio_history ?st) (quarter_str trade_date) = Some h'"
    and s: "start_asset h' = start_asset h" by blast
  from assms have "bought_in_quarter pt ?st trade_date
                     = bought_in_quarter pt st trade_date"
    unfolding bought_in_quarter_def row h h' t t' pf by (simp add: s)
  with assms show ?thesis by simp
qed

lemma holdings_inv_final_liquidation:
  assumes "holdings_inv inp dates st"
  shows "holdings_inv inp dates (final_liquidation inp last_quarter st)"
  using assms final_liquidation_bought [of _ st _ inp last_quarter]
  unfolding holdings_inv_def final_liquidation_portfolio by blast


text \<open>
  C10. After any number of quarters of a backtest, and after the final liquidation, the
  holdings name at most \<open>TOP_N_STOCKS\<close> distinct securities. Unless they are empty,
  they are the purchases of one of the quarters processed so far: the purchase loop
  run at the row of the price table found for the trade date of that quarter (the
  priced-date snapshot), over the top names of that quarter that pass the filter, with
  the start asset of that quarter divided by their number as the cash allocated to
  each. So every holding \<open>(name, shares)\<close> is a top name of that quarter that this row
  lists with a price that is not NaN and greater than 0, and its shares are exactly
  the allocated cash divided by that price.
\<close>

theorem holdings_bounded_and_bought_at_listed_prices:
  assumes "run_quarters lib inp last_quarter 0 (take k quarters) initial_state = Inr st"
    and "st' = st \<or> st' = final_liquidation inp last_quarter st"
  shows "card (fst ` set (current_portfolio st')) \<le> TOP_N_STOCKS
       \<and> (current_portfolio st' = []
          \<or> (\<exists>pt. price_ts inp = Some pt
               \<and> (\<exists>trade_date \<in> set (take k quarters).
                     bought_in_quarter pt st' trade_date
                     \<and> (\<forall>holding \<in> set (current_portfolio st').
                           share_of_purchase pt st' trade_date holding))))"
proof -
  have "holdings_inv inp {} initial_state"
    by (simp add: holdings_inv_def initial_state_def)
  from run_quarters_holdings [OF this assms(1)]
  have "holdings_inv inp (set (take k quarters)) st" by simp
  with assms(2) have inv: "holdings_inv inp (set (take k quarters)) st'"
    using holdings_inv_final_liquidation by blast
  show ?thesis
  proof (cases "current_portfolio st' = []")
    case True
    then show ?thesis by simp
  next
    case False
    with inv obtain pt trade_date where pt: "price_ts inp = Some pt"
      and td: "trade_date \<in> set (take k quarters)"
      and b: "bought_in_quarter pt st' trade_date"
      unfolding holdings_inv_def by blast
    from bought_in_quarter_holdings [OF b] pt td b show ?thesis by blast
  qed
qed

theorem holdings_bounded_and_bought_at_listed_prices_witness:
  "run_quarters example_library (example_inputs prices_one_row) (last quarters) 0
     (take 1 quarters) initial_state = Inr state_after_first
   \<and> current_portfolio state_after_first = [(''B'', Fin 62500), (''A'', Fin 50000)]
   \<and> card (fst ` set (current_portfolio state_after_first)) \<le> TOP_N_STOCKS
   \<and> actual_trade_row prices_one_row (Date 2021 4 1)
       = Some (Date 2021 4 1, [(''A'', Fin 10), (''B'', Fin 8)])
   \<and> bought_in_quarter prices_one_row state_after_first (Date 2021 4 1)
   \<and> share_of_purchase prices_one_row state_after_first (Date 2021 4 1) (''B'', Fin 62500)
   \<and> share_of_purchase prices_one_row state_after_first (Date 2021 4 1) (''A'', Fin 50000)"
proof -
  have first: "process_quarter example_library (example_inputs prices_one_row) (last quarters)
                 0 (Date 2021 4 1) initial_state = Inr state_after_first"
    by (rule example_first_quarter) (simp add: quarters_def)
  have run: "run_quarters example_library (example_inputs prices_one_row) (last quarters) 0
     (take 1 quarters) initial_state = Inr state_after_first"
    using first by (simp add: quarters_def)
  have pf: "current_portfolio state_after_first = [(''B'', Fin 62500), (''A'', Fin 50000)]"
    by (simp add: state_after_first_def)
  have pt: "price_ts (example_inputs prices_one_row) = Some prices_one_row"
    by (simp add: example_inputs_def)
  have q: "set (take 1 quarters) = {Date 2021 4 1}"
    by (simp add: quarters_def)
  have row: "actual_trade_row prices_one_row (Date 2021 4 1)
       = Some (Date 2021 4 1, [(''A'', Fin 10), (''B'', Fin 8)])"
    by (simp add: actual_trade_row_def prices_one_row_def date_le_def)
  from holdings_bounded_and_bought_at_listed_prices [OF run, of state_after_first]
  have "card (fst ` set (current_portfolio state_after_first)) \<le> TOP_N_STOCKS
      \<and> bought_in_quarter prices_one_row state_after_first (Date 2021 4 1)
      \<and> (\<forall>holding \<in> set (current_portfolio state_after_first).
            share_of_purchase prices_one_row state_after_first (Date 2021 4 1) holding)"
    unfolding pt q by (simp add: pf)
  then show ?thesis using run row by (simp add: pf)
qed

subsection \<open>A holding whose price is missing on the valuation date\<close>

lemma quarter_str_eval: "1 \<le> m \<Longrightarrow> quarter_str (Date y m d) = (y, (m + 2) div 3)"
  by (simp add: quarter_str_def, presburger?)

lemma example_second_quarter:
  "process_quarter example_library (example_inputs prices_b_unpriced) (last quarters) 1
     (Date 2021 7 1) state_after_first
   = Inr \<lparr>cash = NaN, current_portfolio = [(''A'', NaN)],
          portfolio_history =
            [((2021, 2), \<lparr>start_asset = Fin 1000000, end_asset = None\<rparr>),
             ((2021, 3), \<lparr>start_asset = NaN, end_asset = None\<rparr>)],
          all_top_stocks =
            [((2021, 2), [(''B'', Fin 1), (''A'', Fin (- 1))]),
             ((2021, 3), [(''B'', Fin 1), (''A'', Fin (- 1))])],
          all_loadings = [((2021, 2), [[1]]), ((2021, 3), [[1]])]\<rparr>"
proof -
  have h1: "price_ts (example_inputs prices_b_unpriced) = Some prices_b_unpriced"
    by (simp add: example_inputs_def)
  have ps: "period_start prices_b_unpriced 1 (Date 2021 7 1) state_after_first
     = Some ([(''A'', Fin 10), (''B'', NaN)],
         \<lparr>cash = NaN, current_portfolio = [],
          portfolio_history =
            [((2021, 2), \<lparr>start_asset = Fin 1000000, end_asset = None\<rparr>),
             ((2021, 3), \<lparr>start_asset = NaN, end_asset = None\<rparr>)],
          all_top_stocks = [((2021, 2), [(''B'', Fin 1), (''A'', Fin (- 1))])],
          all_loadings = [((2021, 2), [[1]])]\<rparr>)"
    by (simp add: period_start_def actual_trade_row_def prices_b_unpriced_def date_le_def
          state_after_first_def stock_value_def py_sum_def series_get_def quarter_str_eval
          Let_def)
  show ?thesis
    unfolding process_quarter_started [OF h1 ps]
    using example_scoring_q3 [of prices_b_unpriced]
    by (simp add: scored_def quarter_str_eval TOP_N_STOCKS_def quarters_def
          build_positions_def tradable_names_of_def series_get_def notna_def Let_def
          fl_sub_def)
qed

text \<open>
  C1 (the code departs from the claim). B is bought in the first quarter at 8; on the
  second trade date its cell is empty (NaN). \<open>Series.get(name, 0)\<close> returns the NaN of
  the cell, not the default, so the holding contributes NaN, not 0: the start asset of
  the second quarter and the value computed by the liquidation are NaN, where the
  claim gives 50000 shares of A at 10, that is 500000.
\<close>

theorem unpriced_holding_makes_value_nan:
  "stock_value [(''A'', Fin 10), (''B'', NaN)] (current_portfolio state_after_first) = NaN
   \<and> process_quarter example_library (example_inputs prices_b_unpriced) (last quarters) 1
       (Date 2021 7 1) state_after_first
     = Inr \<lparr>cash = NaN, current_portfolio = [(''A'', NaN)],
            portfolio_history =
              [((2021, 2), \<lparr>start_asset = Fin 1000000, end_asset = None\<rparr>),
               ((2021, 3), \<lparr>start_asset = NaN, end_asset = None\<rparr>)],
            all_top_stocks =
              [((2021, 2), [(''B'', Fin 1), (''A'', Fin (- 1))]),
               ((2021, 3), [(''B'', Fin 1), (''A'', Fin (- 1))])],
            all_loadings = [((2021, 2), [[1]]), ((2021, 3), [[1]])]\<rparr>
   \<and> final_asset_value_of prices_b_unpriced state_after_first = NaN"
proof -
  have "stock_value [(''A'', Fin 10), (''B'', NaN)] (current_portfolio state_after_first) = NaN"
    by (simp add: stock_value_def py_sum_def series_get_def state_after_first_def)
  moreover have "final_asset_value_of prices_b_unpriced state_after_first = NaN"
    by (simp add: final_asset_value_of_def prices_b_unpriced_def stock_value_def py_sum_def
          series_get_def state_after_first_def)
  ultimately show ?thesis using example_second_quarter by simp
qed

text \<open>A holding whose name the row does not list at all contributes 0, as claimed.\<close>

lemma unlisted_holding_contributes_zero:
  assumes "map_of prices name = None"
  shows "stock_value prices ((name, Fin shares) # portfolio) = stock_value prices portfolio"
  using assms by (simp add: stock_value_def py_sum_def series_get_def)



subsection \<open>The lookback window\<close>

lemma window_loop_filter:
  "window_loop t5 t2 cols acc = Inr ws
   \<Longrightarrow> ws = acc @ filter (\<lambda>col. \<exists>d. report_date_of col = Some (Inr d)
                                   \<and> date_le t5 d \<and> date_le d t2) cols"
proof (induction cols arbitrary: acc)
  case Nil
  then show ?case by simp
next
  case (Cons col cols)
  show ?case
  proof (cases "report_date_of col")
    case None
    with Cons.prems have "window_loop t5 t2 cols acc = Inr ws" by simp
    from Cons.IH [OF this] None show ?thesis by simp
  next
    case (Some r)
    show ?thesis
    proof (cases r)
      case (Inl e)
      with Some Cons.prems show ?thesis by simp
    next
      case (Inr d)
      show ?thesis
      proof (cases "date_le t5 d \<and> date_le d t2")
        case True
        with Some Inr Cons.prems have "window_loop t5 t2 cols (acc @ [col]) = Inr ws" by simp
        from Cons.IH [OF this] Some Inr True show ?thesis by simp
      next
        case False
        with Some Inr Cons.prems have "window_loop t5 t2 cols acc = Inr ws" by auto
        from Cons.IH [OF this] Some Inr False show ?thesis by auto
      qed
    qed
  qed
qed

text \<open>The window is computed whenever no label carries a year outside the timestamp range.\<close>

lemma window_loop_returns:
  "\<forall>col \<in> set cols. \<forall>e. report_date_of col \<noteq> Some (Inl e)
   \<Longrightarrow> \<exists>ws. window_loop t5 t2 cols acc = Inr ws"
proof (induction cols arbitrary: acc)
  case Nil
  then show ?case by simp
next
  case (Cons col cols)
  then show ?case
    by (cases "report_date_of col") (auto split: sum.splits)
qed

text \<open>
  C3. With \<open>t2\<close> the trade date minus 6 months and \<open>t5\<close> that date minus 9 months,
  the window columns are, in their order, exactly the columns after the first whose
  label resolves to a report date \<open>d\<close> with \<open>t5 \<le> d \<le> t2\<close>, both ends included;
  a column whose label resolves to no (year, tag) pair is not among them. A label
  resolves when, with its line feeds replaced by spaces, it holds four decimal digits
  (of any script) followed at any distance by one of the four report tags; the report
  date is the end of the month of the tag in the year that the digits write.
\<close>

theorem window_is_the_closed_interval:
  assumes "window_cols_of trade_date columns = Inr window_cols"
  shows "window_cols
           = filter (\<lambda>col. \<exists>d. report_date_of col = Some (Inr d)
                        \<and> date_le (sub_months (sub_months trade_date 6) 9) d
                        \<and> date_le d (sub_months trade_date 6)) (drop 1 columns)
       \<and> (\<forall>col. col \<in> set window_cols \<longleftrightarrow>
             col \<in> set (drop 1 columns)
             \<and> (\<exists>d. report_date_of col = Some (Inr d)
                    \<and> date_le (sub_months (sub_months trade_date 6) 9) d
                    \<and> date_le d (sub_months trade_date 6)))
       \<and> (\<forall>col. report_date_of col = None \<longrightarrow> col \<notin> set window_cols)"
proof -
  from assms have "window_loop (sub_months (sub_months trade_date 6) 9)
                     (sub_months trade_date 6) (drop 1 columns) [] = Inr window_cols"
    by (simp add: window_cols_of_def Let_def)
  from window_loop_filter [OF this]
  have f: "window_cols
           = filter (\<lambda>col. \<exists>d. report_date_of col = Some (Inr d)
                        \<and> date_le (sub_months (sub_months trade_date 6) 9) d
                        \<and> date_le d (sub_months trade_date 6)) (drop 1 columns)"
    by simp
  have "col \<in> set window_cols \<longleftrightarrow>
             col \<in> set (drop 1 columns)
             \<and> (\<exists>d. report_date_of col = Some (Inr d)
                    \<and> date_le (sub_months (sub_months trade_date 6) 9) d
                    \<and> date_le d (sub_months trade_date 6))" for col
    by (subst f) simp
  moreover have "report_date_of col = None \<longrightarrow> col \<notin> set window_cols" for col
    by (subst f) simp
  ultimately show ?thesis using f by blast
qed

lemma example_window_boundary:
  "window_cols_of (Date 2021 12 31) example_columns
     = Inr [label_2020_third, label_2020_annual]"
  by (simp add: example_columns_def window_cols_of_def sub_months_def example_report_dates
        date_le_def days_in_month_def)

text \<open>
  Two labels that resolve only as the pattern is read above: one writes its year in
  full-width digits, the other has a line feed between the year and the tag.
\<close>

lemma resolver_report_dates:
  "report_date_of label_fullwidth_mid = Some (Inr (Date 2020 6 30))"
  "report_date_of label_split_third = Some (Inr (Date 2020 9 30))"
  by (simp_all add: resolver_defs label_fullwidth_mid_def label_split_third_def)

lemma resolver_window:
  "window_cols_of (Date 2021 4 1) resolver_columns
     = Inr [label_fullwidth_mid, label_split_third]"
  by (simp add: resolver_columns_def window_cols_of_def sub_months_def example_report_dates
        resolver_report_dates date_le_def days_in_month_def)


lemma split_third_needs_replacement: "re_search label_split_third = None"
  by (simp add: resolver_defs label_split_third_def)

theorem window_is_the_closed_interval_witness:
  "window_cols_of (Date 2021 12 31) example_columns = Inr [label_2020_third, label_2020_annual]
   \<and> sub_months (sub_months (Date 2021 12 31) 6) 9 = Date 2020 9 30
   \<and> sub_months (Date 2021 12 31) 6 = Date 2021 6 30
   \<and> report_date_of label_2020_third = Some (Inr (Date 2020 9 30))
   \<and> label_2020_third \<in> set (drop 1 example_columns)
   \<and> report_date_of label_note = None
   \<and> label_note \<notin> set [label_2020_third, label_2020_annual]
   \<and> window_cols_of (Date 2021 4 1) resolver_columns
       = Inr [label_fullwidth_mid, label_split_third]
   \<and> report_date_of label_fullwidth_mid = Some (Inr (Date 2020 6 30))
   \<and> report_date_of label_split_third = Some (Inr (Date 2020 9 30))
   \<and> sub_months (sub_months (Date 2021 4 1) 6) 9 = Date 2020 1 1
   \<and> sub_months (Date 2021 4 1) 6 = Date 2020 10 1"
proof -
  have d: "sub_months (sub_months (Date 2021 12 31) 6) 9 = Date 2020 9 30"
    "sub_months (Date 2021 12 31) 6 = Date 2021 6 30"
    "sub_months (sub_months (Date 2021 4 1) 6) 9 = Date 2020 1 1"
    "sub_months (Date 2021 4 1) 6 = Date 2020 10 1"
    by (simp_all add: sub_months_def days_in_month_def)
  have m: "label_2020_third \<in> set (drop 1 example_columns)"
    by (simp add: example_columns_def)
  from window_is_the_closed_interval [OF example_window_boundary] d m example_report_dates
    resolver_report_dates resolver_window
  show ?thesis
    using example_window_boundary by blast
qed


subsection \<open>Period returns\<close>

lemma fl_nan_right [simp]:
  "fl_add x NaN = NaN" "fl_mul x NaN = NaN" "fl_div x NaN = NaN"
  by (cases x; simp)+

lemma pct_change_nth:
  assumes "i < length xs"
  shows "pct_change xs ! i
           = fl_sub (fl_div (xs ! i) (if i = 0 then NaN else xs ! (i - 1))) (Fin 1)"
proof -
  have l: "length (shift1 xs) = length xs" by (simp add: shift1_def)
  have "shift1 xs ! i = (if i = 0 then NaN else xs ! (i - 1))"
    using assms by (cases i) (simp_all add: shift1_def)
  then show ?thesis using assms l by (simp add: pct_change_def)
qed

lemma period_returns_length: "length (period_returns history) = length history"
  by (simp add: period_returns_def fillna_def pct_change_def shift1_def)

lemma period_returns_nth:
  assumes "i < length history"
  shows "period_returns history ! i
           = (let p = fl_mul (fl_sub (fl_div (start_asset (snd (history ! i)))
                          (if i = 0 then NaN else start_asset (snd (history ! (i - 1)))))
                        (Fin 1)) (Fin 100)
              in if p = NaN then Fin 0 else p)"
proof -
  let ?xs = "map (\<lambda>(q, h). start_asset h) history"
  have l: "i < length (pct_change ?xs)" using assms by (simp add: pct_change_def shift1_def)
  have x: "?xs ! j = start_asset (snd (history ! j))" if "j < length history" for j
    using that by (simp add: case_prod_beta)
  have "i - 1 < length history" using assms by simp
  then show ?thesis
    using assms l pct_change_nth [of i ?xs] x [of i] x [of "i - 1"]
    by (simp add: period_returns_def fillna_def Let_def)
qed

text \<open>
  C8, as amended. The period return of the first recorded quarter is 0. For a later
  recorded quarter with start asset \<open>x\<close> and start asset \<open>y\<close> of the recorded quarter
  before it, the period return is \<open>(x / y - 1) * 100\<close> computed on floats, with 0 in
  place of a NaN result; when both are numbers and \<open>y\<close> is not 0, this is the
  percentage change \<open>(x - y) / y * 100\<close>.
\<close>

theorem period_return_is_change_or_zero:
  assumes "i < length history"
  shows "(i = 0 \<longrightarrow> period_returns history ! i = Fin 0)
       \<and> (0 < i \<longrightarrow>
            period_returns history ! i
              = (let p = fl_mul (fl_sub (fl_div (start_asset (snd (history ! i)))
                                   (start_asset (snd (history ! (i - 1))))) (Fin 1)) (Fin 100)
                 in if p = NaN then Fin 0 else p))
       \<and> (\<forall>x y. 0 < i \<and> start_asset (snd (history ! i)) = Fin x
                 \<and> start_asset (snd (history ! (i - 1))) = Fin y \<and> y \<noteq> 0
              \<longrightarrow> period_returns history ! i = Fin ((x - y) / y * 100)
                  \<and> period_returns history ! i
                      = spec_percentage_change (Fin y) (Fin x))"
proof -
  note n = period_returns_nth [OF assms]
  have a: "i = 0 \<longrightarrow> period_returns history ! i = Fin 0"
  proof
    assume "i = 0"
    with n show "period_returns history ! i = Fin 0" by (simp add: fl_sub_def Let_def)
  qed
  have b: "0 < i \<longrightarrow>
            period_returns history ! i
              = (let p = fl_mul (fl_sub (fl_div (start_asset (snd (history ! i)))
                                   (start_asset (snd (history ! (i - 1))))) (Fin 1)) (Fin 100)
                 in if p = NaN then Fin 0 else p)"
    using n by simp
  have c: "period_returns history ! i = Fin ((x - y) / y * 100)
           \<and> period_returns history ! i = spec_percentage_change (Fin y) (Fin x)"
    if "0 < i" "start_asset (snd (history ! i)) = Fin x"
      "start_asset (snd (history ! (i - 1))) = Fin y" "y \<noteq> 0" for x y
  proof -
    have "x / y - 1 = (x - y) / y" using that(4) by (simp add: diff_divide_distrib)
    then show ?thesis
      using n that by (simp add: fl_sub_def spec_percentage_change_def Let_def)
  qed
  from a b c show ?thesis by blast
qed

theorem period_return_is_change_or_zero_witness:
  "period_returns history_with_nan = [Fin 0, Fin 20, Fin 0]
   \<and> period_returns history_with_nan ! 1 = Fin ((1200000 - 1000000) / 1000000 * 100)
   \<and> period_returns history_with_nan ! 1 = spec_percentage_change (Fin 1000000) (Fin 1200000)"
proof -
  have l: "1 < length history_with_nan" by (simp add: history_with_nan_def)
  have e: "period_returns history_with_nan = [Fin 0, Fin 20, Fin 0]"
    by (simp add: period_returns_def history_with_nan_def pct_change_def shift1_def
          fillna_def fl_sub_def)
  from period_return_is_change_or_zero [OF l] e
  show ?thesis
    by (simp add: history_with_nan_def fl_sub_def spec_percentage_change_def Let_def)
qed

text \<open>
  C8 as stated fails where the percentage change is NaN: the third recorded quarter of
  this history starts with an asset value of NaN, its change relative to 1200000 is NaN,
  and the table reports 0.
\<close>

theorem period_return_of_nan_counterexample:
  "period_returns history_with_nan ! 2 = Fin 0
   \<and> spec_percentage_change (start_asset (snd (history_with_nan ! 1)))
       (start_asset (snd (history_with_nan ! 2))) = NaN
   \<and> period_returns history_with_nan ! 2
       \<noteq> spec_percentage_change (start_asset (snd (history_with_nan ! 1)))
           (start_asset (snd (history_with_nan ! 2)))"
  by (simp add: period_returns_def history_with_nan_def pct_change_def shift1_def
        fillna_def fl_sub_def spec_percentage_change_def)


subsection \<open>The factor count and the weights on loadings that are all zero\<close>

lemma zero_loadings_shares:
  "share_of_total (eig_vals_of [[0, 0]]) = [NaN]"
  "cum_shares [[0, 0]] = [NaN]"
  by (simp_all add: cum_shares_def share_of_total_def eig_vals_of_def np_cumsum_def
        inf_of_sign_def)

lemma zero_loadings_n_factors: "choose_n_factors [[0, 0]] DEFAULT_MIN_CUM_VAR = 1"
  by (simp add: choose_n_factors_def zero_loadings_shares searchsorted_def np_less_def
        binsearch_left.simps [of _ _ 0 "Suc 0"] binsearch_left.simps [of _ _ 0 0]
        DEFAULT_MIN_CUM_VAR_def)

lemma zero_loadings_extractor:
  "rolling_factor_analysis_and_ranking zero_loadings_library single_security_frame
     DEFAULT_MIN_CUM_VAR DEFAULT_MAX_FACTOR
   = Inr (Some ([[0], [0]], [(''A'', NaN)]))"
proof -
  have d: "np_dot [[0]] [NaN] = Inr [NaN]"
    by (simp add: np_dot_def inner_def)
  have t: "transpose [[0::real, 0]] = [[0], [0]]"
    by simp
  have s: "sort_values_desc stable_argsort [(''A'', NaN)] = [(''A'', NaN)]"
    by (simp add: sort_values_desc_def nargsort_desc_def stable_argsort_def)
  show ?thesis
    by (simp add: rolling_factor_analysis_and_ranking_def zero_loadings_library_def
          single_security_frame_def DEFAULT_MAX_FACTOR_def zero_loadings_n_factors
          zero_loadings_shares d t s)
qed

text \<open>
  C2 (the code departs from the claim). On the single-security window the extraction
  returns a result, not \<open>(None, None)\<close>. The loadings of the first fit are all 0, the
  shares are \<open>0/0\<close>, that is NaN, and so is the cumulative share; the search returns 0
  and the factor count is 1, although the cumulative share at count 1 does not reach
  the threshold 0.8.
\<close>

theorem factor_count_on_zero_loadings:
  "rolling_factor_analysis_and_ranking zero_loadings_library single_security_frame
     DEFAULT_MIN_CUM_VAR DEFAULT_MAX_FACTOR
   = Inr (Some ([[0], [0]], [(''A'', NaN)]))
   \<and> cum_shares [[0, 0]] = [NaN]
   \<and> choose_n_factors [[0, 0]] DEFAULT_MIN_CUM_VAR = 1
   \<and> \<not> fl_le (Fin DEFAULT_MIN_CUM_VAR) (cum_shares [[0, 0]] ! (1 - 1))"
  using zero_loadings_extractor zero_loadings_n_factors
  by (simp add: zero_loadings_shares)

text \<open>
  C7 (the code departs from the claim). On the same window the weights of the final
  fit are \<open>0/0\<close>: the weight vector is \<open>[NaN]\<close>, its sum is NaN and not 1, and the
  composite score of the security is NaN.
\<close>

theorem weights_on_zero_loadings:
  "rolling_factor_analysis_and_ranking zero_loadings_library single_security_frame
     DEFAULT_MIN_CUM_VAR DEFAULT_MAX_FACTOR
   = Inr (Some ([[0], [0]], [(''A'', NaN)]))
   \<and> share_of_total (eig_vals_of [[0, 0]]) = [NaN]
   \<and> py_sum (share_of_total (eig_vals_of [[0, 0]])) = NaN
   \<and> py_sum (share_of_total (eig_vals_of [[0, 0]])) \<noteq> Fin 1"
  using zero_loadings_extractor
  by (simp add: zero_loadings_shares py_sum_def)


subsection \<open>The ranked list\<close>

lemma np_less_asym: "np_less a b \<Longrightarrow> \<not> np_less b a"
  by (cases a; cases b; simp add: np_less_def)

lemma np_not_less_trans: "\<not> np_less b a \<Longrightarrow> \<not> np_less c b \<Longrightarrow> \<not> np_less c a"
  by (cases a; cases b; cases c; simp add: np_less_def)

lemma insert_before_ge_mset: "mset (insert_before_ge ks i js) = add_mset i (mset js)"
  by (induction js) simp_all

lemma insert_before_ge_set: "set (insert_before_ge ks i js) = insert i (set js)"
  using insert_before_ge_mset [of ks i js] by (metis set_mset_add_mset_insert set_mset_mset)

lemma insert_before_ge_sorted:
  "sorted_wrt (\<lambda>i j. \<not> np_less (ks ! j) (ks ! i)) js
   \<Longrightarrow> sorted_wrt (\<lambda>i j. \<not> np_less (ks ! j) (ks ! i)) (insert_before_ge ks i js)"
proof (induction js)
  case Nil
  then show ?case by simp
next
  case (Cons j js)
  show ?case
  proof (cases "np_less (ks ! j) (ks ! i)")
    case True
    have "\<not> np_less (ks ! x) (ks ! j)" if "x \<in> set (insert_before_ge ks i js)" for x
      using that Cons.prems True np_less_asym by (auto simp: insert_before_ge_set)
    with True Cons show ?thesis by simp
  next
    case False
    have "\<not> np_less (ks ! x) (ks ! i)" if "x \<in> set js" for x
      using that Cons.prems False np_not_less_trans by auto
    with False Cons.prems show ?thesis by simp
  qed
qed

lemma foldr_insert_ge:
  "mset (foldr (insert_before_ge ks) is []) = mset is
   \<and> sorted_wrt (\<lambda>i j. \<not> np_less (ks ! j) (ks ! i)) (foldr (insert_before_ge ks) is [])"
  by (induction "is") (simp_all add: insert_before_ge_mset insert_before_ge_sorted)

lemma stable_argsort_ok: "argsort_ok stable_argsort"
  by (simp add: argsort_ok_def stable_argsort_def foldr_insert_ge)

lemma nargsort_desc_parts:
  assumes "argsort_ok argsort"
    and nn_def: "nn = rev (filter (\<lambda>i. items ! i \<noteq> NaN) [0..<length items])"
  shows "nargsort_desc argsort items
           = rev (map (\<lambda>j. nn ! j) (argsort (map (\<lambda>i. items ! i) nn)))
             @ filter (\<lambda>i. items ! i = NaN) [0..<length items]"
    and "mset (argsort (map (\<lambda>i. items ! i) nn)) = mset [0..<length nn]"
    and "sorted_wrt (\<lambda>i j. \<not> np_less (map (\<lambda>i. items ! i) nn ! j)
                                   (map (\<lambda>i. items ! i) nn ! i))
           (argsort (map (\<lambda>i. items ! i) nn))"
proof -
  show "nargsort_desc argsort items
           = rev (map (\<lambda>j. nn ! j) (argsort (map (\<lambda>i. items ! i) nn)))
             @ filter (\<lambda>i. items ! i = NaN) [0..<length items]"
    by (simp add: nargsort_desc_def Let_def nn_def)
  have "NaN \<notin> set (map (\<lambda>i. items ! i) nn)"
    by (auto simp: nn_def)
  with assms(1) have
    "mset (argsort (map (\<lambda>i. items ! i) nn)) = mset [0..<length (map (\<lambda>i. items ! i) nn)]
     \<and> sorted_wrt (\<lambda>i j. \<not> np_less (map (\<lambda>i. items ! i) nn ! j)
                                   (map (\<lambda>i. items ! i) nn ! i))
           (argsort (map (\<lambda>i. items ! i) nn))"
    unfolding argsort_ok_def by blast
  then show "mset (argsort (map (\<lambda>i. items ! i) nn)) = mset [0..<length nn]"
    and "sorted_wrt (\<lambda>i j. \<not> np_less (map (\<lambda>i. items ! i) nn ! j)
                                   (map (\<lambda>i. items ! i) nn ! i))
           (argsort (map (\<lambda>i. items ! i) nn))"
    by simp_all
qed

lemma nargsort_desc_mset:
  assumes "argsort_ok argsort"
  shows "mset (nargsort_desc argsort items) = mset [0..<length items]"
proof -
  define nn where "nn = rev (filter (\<lambda>i. items ! i \<noteq> NaN) [0..<length items])"
  note parts = nargsort_desc_parts [OF assms nn_def]
  have "mset (map (\<lambda>j. nn ! j) (argsort (map (\<lambda>i. items ! i) nn)))
          = image_mset (\<lambda>j. nn ! j) (mset [0..<length nn])"
    unfolding mset_map parts(2) ..
  also have "\<dots> = mset (map (\<lambda>j. nn ! j) [0..<length nn])" by simp
  also have "\<dots> = mset nn" by (simp add: map_nth)
  finally have "mset (nargsort_desc argsort items)
                  = mset nn + mset (filter (\<lambda>i. items ! i = NaN) [0..<length items])"
    using parts(1) by simp
  also have "\<dots> = mset (filter (\<lambda>i. items ! i \<noteq> NaN) [0..<length items])
                   + mset (filter (\<lambda>i. \<not> items ! i \<noteq> NaN) [0..<length items])"
    by (simp add: nn_def)
  also have "\<dots> = mset [0..<length items]"
    by (simp only: mset_filter multiset_partition [symmetric])
  finally show ?thesis .
qed

lemma all_nan_ranked: "\<forall>x \<in> set xs. x = NaN \<Longrightarrow> sorted_wrt ranks_before xs"
  by (induction xs) (simp_all add: ranks_before_def)

lemma nargsort_desc_sorted:
  assumes "argsort_ok argsort"
  shows "sorted_wrt ranks_before (map (\<lambda>i. items ! i) (nargsort_desc argsort items))"
proof -
  define nn where "nn = rev (filter (\<lambda>i. items ! i \<noteq> NaN) [0..<length items])"
  define vs where "vs = map (\<lambda>i. items ! i) nn"
  define p where "p = argsort vs"
  note parts = nargsort_desc_parts [OF assms nn_def, folded vs_def, folded p_def]
  have nonan: "NaN \<notin> set vs" by (auto simp: vs_def nn_def)
  have bound: "j < length nn" if "j \<in> set p" for j
  proof -
    from that have "j \<in># mset p" by simp
    then have "j \<in># mset [0..<length nn]" using parts(2) by simp
    then have "j \<in> set [0..<length nn]" by (simp only: set_mset_mset)
    then show ?thesis by simp
  qed
  have "map (\<lambda>i. items ! i) (map (\<lambda>j. nn ! j) p) = map (\<lambda>j. vs ! j) p"
    using bound by (simp add: vs_def)
  then have first: "map (\<lambda>i. items ! i) (rev (map (\<lambda>j. nn ! j) p)) = rev (map (\<lambda>j. vs ! j) p)"
    by (simp add: rev_map)
  have "sorted_wrt (\<lambda>a b. \<not> np_less b a) (map (\<lambda>j. vs ! j) p)"
    using parts(3) by (simp add: sorted_wrt_map)
  then have "sorted_wrt (\<lambda>a b. \<not> np_less a b) (rev (map (\<lambda>j. vs ! j) p))"
    by (simp add: sorted_wrt_rev)
  moreover have in_vs: "set (rev (map (\<lambda>j. vs ! j) p)) \<subseteq> set vs"
    using bound by (auto simp: vs_def)
  ultimately have s1: "sorted_wrt ranks_before (rev (map (\<lambda>j. vs ! j) p))"
  proof -
    assume srt: "sorted_wrt (\<lambda>a b. \<not> np_less a b) (rev (map (\<lambda>j. vs ! j) p))"
      and sub: "set (rev (map (\<lambda>j. vs ! j) p)) \<subseteq> set vs"
    show ?thesis
    proof (rule sorted_wrt_mono_rel [OF _ srt])
      fix a b
      assume "a \<in> set (rev (map (\<lambda>j. vs ! j) p))" and "\<not> np_less a b"
      with sub nonan have "a \<noteq> NaN" "\<not> fl_less a b"
        by (auto simp: np_less_def)
      then show "ranks_before a b" by (simp add: ranks_before_def)
    qed
  qed
  let ?nans = "map (\<lambda>i. items ! i) (filter (\<lambda>i. items ! i = NaN) [0..<length items])"
  have nan_part: "\<forall>x \<in> set ?nans. x = NaN"
    by auto
  then have s2: "sorted_wrt ranks_before ?nans"
    by (rule all_nan_ranked)
  have cross: "\<forall>a \<in> set (rev (map (\<lambda>j. vs ! j) p)). \<forall>b \<in> set ?nans. ranks_before a b"
    using nan_part by (simp add: ranks_before_def)
  have "sorted_wrt ranks_before (rev (map (\<lambda>j. vs ! j) p) @ ?nans)"
    unfolding sorted_wrt_append using s1 s2 cross by (intro conjI)
  then show ?thesis
    unfolding parts(1) map_append first .
qed

lemma sort_values_desc_ranked:
  assumes "argsort_ok argsort"
  shows "mset (sort_values_desc argsort rows) = mset rows"
    and "sorted_wrt ranks_before (map snd (sort_values_desc argsort rows))"
proof -
  let ?ix = "nargsort_desc argsort (map snd rows)"
  have m: "mset ?ix = mset [0..<length rows]"
    using nargsort_desc_mset [OF assms, of "map snd rows"] by simp
  have "mset (map (\<lambda>i. rows ! i) ?ix) = image_mset (\<lambda>i. rows ! i) (mset [0..<length rows])"
    unfolding mset_map m ..
  also have "\<dots> = mset (map (\<lambda>i. rows ! i) [0..<length rows])" by simp
  also have "\<dots> = mset rows" by (simp add: map_nth)
  finally show "mset (sort_values_desc argsort rows) = mset rows"
    by (simp add: sort_values_desc_def)
  have bound: "i < length rows" if "i \<in> set ?ix" for i
  proof -
    from that have "i \<in># mset ?ix" by simp
    then have "i \<in># mset [0..<length rows]" using m by simp
    then have "i \<in> set [0..<length rows]" by (simp only: set_mset_mset)
    then show ?thesis by simp
  qed
  have "map snd (map (\<lambda>i. rows ! i) ?ix) = map (\<lambda>i. map snd rows ! i) ?ix"
    using bound by simp
  then have "map snd (sort_values_desc argsort rows) = map (\<lambda>i. map snd rows ! i) ?ix"
    by (simp only: sort_values_desc_def)
  then show "sorted_wrt ranks_before (map snd (sort_values_desc argsort rows))"
    using nargsort_desc_sorted [OF assms, of "map snd rows"]
    by (simp only:)
qed

lemma extractor_result_form:
  assumes "rolling_factor_analysis_and_ranking lib window_data min_cum_var max_factor
             = Inr (Some (loadings, ranked_stocks))"
  shows "\<exists>total_scores. length total_scores = length (f_names window_data)
           \<and> ranked_stocks
               = sort_values_desc (np_argsort lib) (zip (f_names window_data) total_scores)"
  using assms
  by (auto simp: rolling_factor_analysis_and_ranking_def Let_def
           split: sum.splits option.splits prod.splits if_splits)

text \<open>
  When the sort meets what numpy guarantees for the default kind, every ranked list that
  the extractor returns holds the pairs of a security of the input and its composite
  score, one pair per input row, in descending order of the scores with NaN scores last.
  The order among equal scores is the one that the sorting procedure of the library
  gives them.
\<close>

lemma ranked_list_descending:
  assumes "argsort_ok (np_argsort lib)"
    and "rolling_factor_analysis_and_ranking lib window_data min_cum_var max_factor
           = Inr (Some (loadings, ranked_stocks))"
  shows "\<exists>total_scores. length total_scores = length (f_names window_data)
           \<and> mset ranked_stocks = mset (zip (f_names window_data) total_scores)
           \<and> sorted_wrt ranks_before (map snd ranked_stocks)"
proof -
  from extractor_result_form [OF assms(2)] obtain total_scores where
    l: "length total_scores = length (f_names window_data)"
    and r: "ranked_stocks
              = sort_values_desc (np_argsort lib) (zip (f_names window_data) total_scores)"
    by blast
  note s = sort_values_desc_ranked [OF assms(1), of "zip (f_names window_data) total_scores"]
  from l s show ?thesis unfolding r by blast
qed

end
